theory Spec2Isabelle
  imports Complex_Main
begin

section \<open>Floating-point values\<close>

text \<open>
  The script computes with numpy float64 arrays.  A float is modelled as a finite real,
  one of the two infinities, or NaN (numpy's marker for "undefined").  The operations
  \<open>fl_add\<close>, \<open>fl_mul\<close>, \<open>fl_div\<close> and \<open>fl_sqrt\<close> give the exact finite result, and a zero
  is the positive zero.  The special values follow IEEE 754, which numpy uses (a warning
  is printed for \<open>1/0\<close> or \<open>0/0\<close>, no exception is raised).  Where the rounding of
  the hardware decides the stored value, in the combination of the error sources of
  Stage 3, the operations \<open>d_add\<close>, \<open>d_mul\<close>, \<open>d_div\<close> and \<open>d_sqrt\<close> below round each
  result to double precision.
\<close>

datatype fl = Fin real | PInf | MInf | NaN

definition fl_inf :: "bool \<Rightarrow> fl" where
  "fl_inf negative = (if negative then MInf else PInf)"

fun fl_isneg :: "fl \<Rightarrow> bool" where
  "fl_isneg (Fin a) = (a < 0)"
| "fl_isneg MInf = True"
| "fl_isneg PInf = False"
| "fl_isneg NaN = False"

fun fl_neg :: "fl \<Rightarrow> fl" where
  "fl_neg (Fin a) = Fin (- a)"
| "fl_neg PInf = MInf"
| "fl_neg MInf = PInf"
| "fl_neg NaN = NaN"

fun fl_add :: "fl \<Rightarrow> fl \<Rightarrow> fl" where
  "fl_add (Fin a) (Fin b) = Fin (a + b)"
| "fl_add NaN y = NaN"
| "fl_add x NaN = NaN"
| "fl_add PInf MInf = NaN"
| "fl_add MInf PInf = NaN"
| "fl_add PInf y = PInf"
| "fl_add x PInf = PInf"
| "fl_add MInf y = MInf"
| "fl_add x MInf = MInf"

definition fl_sub :: "fl \<Rightarrow> fl \<Rightarrow> fl" where
  "fl_sub x y = fl_add x (fl_neg y)"

fun fl_mul :: "fl \<Rightarrow> fl \<Rightarrow> fl" where
  "fl_mul (Fin a) (Fin b) = Fin (a * b)"
| "fl_mul NaN y = NaN"
| "fl_mul x NaN = NaN"
| "fl_mul x y = (if x = Fin 0 \<or> y = Fin 0 then NaN else fl_inf (fl_isneg x \<noteq> fl_isneg y))"

fun fl_div :: "fl \<Rightarrow> fl \<Rightarrow> fl" where
  "fl_div (Fin a) (Fin b) =
     (if b \<noteq> 0 then Fin (a / b) else if a = 0 then NaN else fl_inf (a < 0))"
| "fl_div NaN y = NaN"
| "fl_div x NaN = NaN"
| "fl_div (Fin a) y = Fin 0"
| "fl_div x (Fin b) = fl_inf (fl_isneg x \<noteq> (b < 0))"
| "fl_div x y = NaN"

fun fl_sqrt :: "fl \<Rightarrow> fl" where
  "fl_sqrt (Fin a) = (if a < 0 then NaN else Fin (sqrt a))"
| "fl_sqrt PInf = PInf"
| "fl_sqrt MInf = NaN"
| "fl_sqrt NaN = NaN"

fun fl_abs :: "fl \<Rightarrow> fl" where
  "fl_abs (Fin a) = Fin \<bar>a\<bar>"
| "fl_abs PInf = PInf"
| "fl_abs MInf = PInf"
| "fl_abs NaN = NaN"

text \<open>Comparisons: every comparison with NaN is false.\<close>

fun fl_le :: "fl \<Rightarrow> fl \<Rightarrow> bool" where
  "fl_le NaN y = False"
| "fl_le x NaN = False"
| "fl_le (Fin a) (Fin b) = (a \<le> b)"
| "fl_le MInf y = True"
| "fl_le x PInf = True"
| "fl_le x y = False"

definition fl_less :: "fl \<Rightarrow> fl \<Rightarrow> bool" where
  "fl_less x y = (fl_le x y \<and> x \<noteq> y)"

definition isnan :: "fl \<Rightarrow> bool" where
  "isnan x = (x = NaN)"

text \<open>
  \<open>np.rint\<close> rounds to the nearest integer, a tie to the even one.  \<open>np.round(x, d)\<close>
  multiplies by \<open>10 ** d\<close>, applies \<open>rint\<close> and divides by \<open>10 ** d\<close> again.
\<close>

definition rint :: "real \<Rightarrow> real" where
  "rint x =
     (let f = \<lfloor>x\<rfloor>; r = x - of_int f
      in of_int (if r < 1 / 2 then f else if 1 / 2 < r then f + 1
                 else if even f then f else f + 1))"

fun fl_rint :: "fl \<Rightarrow> fl" where
  "fl_rint (Fin a) = Fin (rint a)"
| "fl_rint x = x"

definition np_round :: "fl \<Rightarrow> nat \<Rightarrow> fl" where
  "np_round x decimals = fl_div (fl_rint (fl_mul x (Fin (10 ^ decimals)))) (Fin (10 ^ decimals))"

subsection \<open>Double precision\<close>

text \<open>
  An IEEE 754 double has 53 significant bits.  \<open>dbl x\<close> is the double nearest to \<open>x\<close>, a
  tie going to the even mantissa: with \<open>e\<close> the binary exponent of \<open>x\<close>, the unit in the
  last place is \<open>2 ** (e - 52)\<close>, and \<open>x\<close> is rounded to a multiple of it.  Overflow to
  infinity and subnormal numbers are left out (the values at hand are rates and their
  errors).  Addition, multiplication, division and square root are correctly rounded;
  \<open>rint\<close> of a double is exact.
\<close>

definition pow2 :: "int \<Rightarrow> real" where
  "pow2 e = (if 0 \<le> e then 2 ^ nat e else 1 / 2 ^ nat (- e))"

definition dbl :: "real \<Rightarrow> real" where
  "dbl x = (if x = 0 then 0
            else let u = pow2 (\<lfloor>log 2 \<bar>x\<bar>\<rfloor> - 52) in rint (x / u) * u)"

fun fl_dbl :: "fl \<Rightarrow> fl" where
  "fl_dbl (Fin a) = Fin (dbl a)"
| "fl_dbl x = x"

definition d_add :: "fl \<Rightarrow> fl \<Rightarrow> fl" where
  "d_add x y = fl_dbl (fl_add x y)"

definition d_sub :: "fl \<Rightarrow> fl \<Rightarrow> fl" where
  "d_sub x y = fl_dbl (fl_sub x y)"

definition d_mul :: "fl \<Rightarrow> fl \<Rightarrow> fl" where
  "d_mul x y = fl_dbl (fl_mul x y)"

definition d_div :: "fl \<Rightarrow> fl \<Rightarrow> fl" where
  "d_div x y = fl_dbl (fl_div x y)"

definition d_sqrt :: "fl \<Rightarrow> fl" where
  "d_sqrt x = fl_dbl (fl_sqrt x)"

text \<open>\<open>np.round\<close> with each of its two arithmetic steps rounded to double precision.\<close>

definition np_round_d :: "fl \<Rightarrow> nat \<Rightarrow> fl" where
  "np_round_d x decimals = d_div (fl_rint (d_mul x (Fin (10 ^ decimals)))) (Fin (10 ^ decimals))"

section \<open>Stage 1: yearly ICME rates corrected for data coverage\<close>

text \<open>
  The yearly arrays have one entry for each year from 2007 to \<open>last_year - 1\<close>
  (\<open>np.arange(2007, last_year)\<close> with \<open>last_year = 2020\<close>).
\<close>

definition last_year :: nat where
  "last_year = 2020"

definition n_years :: nat where
  "n_years = last_year - 2007"

datatype spacecraft = WIN | VEX | STA | STB | MES | MAV

text \<open>
  One entry of \<open>np.round(hist1 / total_data_days_yearly * 365.24, 1)\<close>: the integer count
  of the histogram is divided by the available days, scaled to a year and rounded.
\<close>

definition rate_entry :: "nat \<Rightarrow> fl \<Rightarrow> fl" where
  "rate_entry cnt days = np_round (fl_mul (fl_div (Fin (real cnt)) days) (Fin 365.24)) 1"

text \<open>
  The arrays \<open>histwin\<close>, \<open>histvex\<close>, \<open>histsta\<close>, \<open>histstb\<close>, \<open>histmes\<close>, \<open>histmav\<close>.
  The counts \<open>hist1\<close> (from \<open>np.histogram\<close> over the yearly bins) and the available days
  are arrays of \<open>n_years\<close> entries, so the operation is elementwise.  Two entries are set
  by hand after the computation: \<open>histsta[-1] = 13\<close> and \<open>histmav[7] = np.nan\<close>.
\<close>

definition hist :: "spacecraft \<Rightarrow> nat list \<Rightarrow> fl list \<Rightarrow> fl list" where
  "hist sc hist1 total_data_days_yearly =
     (let h = map2 rate_entry hist1 total_data_days_yearly
      in case sc of
           STA \<Rightarrow> h[length h - 1 := Fin 13]
         | MAV \<Rightarrow> h[7 := NaN]
         | _ \<Rightarrow> h)"

subsection \<open>Available observation days\<close>

text \<open>
  An in-situ data set is a numpy record array: one record for each sample, with the
  fields \<open>time\<close> (never missing) and \<open>bt\<close> (the total magnetic field, NaN where the
  measurement is missing).  Times are days on the \<open>plot_date\<close> axis.
\<close>

record sample =
  time :: real
  bt :: fl

text \<open>
  \<open>np.where(cond)[0]\<close> lists the indices at which the condition holds; \<open>a[idx]\<close> with an
  index array picks those entries.  Every index array below comes from \<open>np.where\<close> over
  an array that is not longer than the indexed one, so each read is in range.
\<close>

definition np_where :: "('a \<Rightarrow> bool) \<Rightarrow> 'a list \<Rightarrow> nat list" where
  "np_where p xs = filter (\<lambda>k. p (xs ! k)) [0..<length xs]"

definition np_take :: "'a list \<Rightarrow> nat list \<Rightarrow> 'a list" where
  "np_take xs idx = map (\<lambda>k. xs ! k) idx"

fun np_diff :: "real list \<Rightarrow> real list" where
  "np_diff (x # y # zs) = (y - x) # np_diff (y # zs)"
| "np_diff zs = []"

definition min_in_days :: real where
  "min_in_days = 1 / (60 * 24)"

text \<open>
  The loop body for a spacecraft with one sample each minute (STEREO-A; STEREO-B and
  Venus Express are the same lines on their own arrays): the samples strictly inside
  the year, the number \<open>datas\<close> of them with a defined \<open>bt\<close>, and the days they stand for.
  The array starts filled with NaN and an entry is written only if \<open>datas > 0\<close>.
\<close>

definition total_data_days_yearly_sta :: "sample list \<Rightarrow> real list \<Rightarrow> real list \<Rightarrow> fl list" where
  "total_data_days_yearly_sta sta yearly_start_times yearly_end_times =
     map (\<lambda>i.
       let thisyear = np_where (\<lambda>t. yearly_start_times ! i < t \<and> t < yearly_end_times ! i)
                        (map time sta);
           datas = length (np_where (\<lambda>b. \<not> isnan b) (np_take (map bt sta) thisyear))
       in if 0 < datas then Fin (real datas * min_in_days) else NaN)
     [0..<n_years]"

text \<open>
  MAVEN has no fixed cadence: the time differences of the samples with a defined \<open>bt\<close>
  are summed, leaving out the differences of 0.25 days (one orbit) or more.
  \<open>datas_ind\<close> holds positions inside \<open>mav.bt[thisyear]\<close>; the source then reads
  \<open>mav.time[datas_ind]\<close>, the whole time array at those positions.
\<close>

definition total_data_days_yearly_mav :: "sample list \<Rightarrow> real list \<Rightarrow> real list \<Rightarrow> fl list" where
  "total_data_days_yearly_mav mav yearly_start_times yearly_end_times =
     map (\<lambda>i.
       let thisyear = np_where (\<lambda>t. yearly_start_times ! i < t \<and> t < yearly_end_times ! i)
                        (map time mav);
           datas = length (np_where (\<lambda>b. \<not> isnan b) (np_take (map bt mav) thisyear));
           datas_ind = np_where (\<lambda>b. \<not> isnan b) (np_take (map bt mav) thisyear);
           alldiff = np_diff (np_take (map time mav) datas_ind);
           smalldiff_ind = np_where (\<lambda>d. d < 0.25) alldiff
       in if 0 < datas then Fin (sum_list (np_take alldiff smalldiff_ind)) else NaN)
     [0..<n_years]"

text \<open>
  What the comment in the source and the specification ask for: the differences between
  consecutive samples of that year with a defined \<open>bt\<close>, those below 0.25 days summed.
\<close>

definition mav_days_in_year :: "sample list \<Rightarrow> real \<Rightarrow> real \<Rightarrow> real" where
  "mav_days_in_year mav t_start t_end =
     sum_list (filter (\<lambda>d. d < 0.25)
       (np_diff (map time (filter (\<lambda>s. t_start < time s \<and> time s < t_end \<and> \<not> isnan (bt s)) mav))))"

section \<open>Stage 2: statistics across the spacecraft\<close>

text \<open>
  The numpy reductions.  The NaN-aware ones drop the NaN entries first and return NaN
  (with a warning, not an exception) when nothing is left.
\<close>

definition np_sum :: "fl list \<Rightarrow> fl" where
  "np_sum xs = foldl fl_add (Fin 0) xs"

definition np_mean :: "fl list \<Rightarrow> fl" where
  "np_mean xs = fl_div (np_sum xs) (Fin (real (length xs)))"

text \<open>\<open>np.std\<close>: the root of the mean squared deviation from the mean (no Bessel correction).\<close>

definition np_var :: "fl list \<Rightarrow> fl" where
  "np_var xs = (let avg = np_mean xs in np_mean (map (\<lambda>x. fl_mul (fl_sub x avg) (fl_sub x avg)) xs))"

definition np_std :: "fl list \<Rightarrow> fl" where
  "np_std xs = fl_sqrt (np_var xs)"

fun fl_insort :: "fl \<Rightarrow> fl list \<Rightarrow> fl list" where
  "fl_insort x [] = [x]"
| "fl_insort x (y # ys) = (if fl_le x y then x # y # ys else y # fl_insort x ys)"

definition np_sort :: "fl list \<Rightarrow> fl list" where
  "np_sort xs = foldr fl_insort xs []"

text \<open>\<open>np.median\<close>: the mean of the middle entry, or of the two middle entries, of the sorted array.\<close>

definition np_median :: "fl list \<Rightarrow> fl" where
  "np_median xs =
     (let part = np_sort xs; index = length part div 2
      in if length part mod 2 = 1 then np_mean (take 1 (drop index part))
         else np_mean (take 2 (drop (index - 1) part)))"

definition fl_max :: "fl \<Rightarrow> fl \<Rightarrow> fl" where
  "fl_max x y = (if fl_le x y then y else x)"

definition fl_min :: "fl \<Rightarrow> fl \<Rightarrow> fl" where
  "fl_min x y = (if fl_le x y then x else y)"

definition nan_drop :: "fl list \<Rightarrow> fl list" where
  "nan_drop xs = filter (\<lambda>x. \<not> isnan x) xs"

definition nanmean :: "fl list \<Rightarrow> fl" where
  "nanmean xs = np_mean (nan_drop xs)"

definition nanmedian :: "fl list \<Rightarrow> fl" where
  "nanmedian xs = (case nan_drop xs of [] \<Rightarrow> NaN | y # ys \<Rightarrow> np_median (y # ys))"

definition nanstd :: "fl list \<Rightarrow> fl" where
  "nanstd xs = np_std (nan_drop xs)"

definition nanmax :: "fl list \<Rightarrow> fl" where
  "nanmax xs = (case nan_drop xs of [] \<Rightarrow> NaN | y # ys \<Rightarrow> foldl fl_max y ys)"

definition nanmin :: "fl list \<Rightarrow> fl" where
  "nanmin xs = (case nan_drop xs of [] \<Rightarrow> NaN | y # ys \<Rightarrow> foldl fl_min y ys)"

text \<open>
  The data frame \<open>icrate\<close>: for each year the six rates in the order Wind, VEX, STEREO-A,
  STEREO-B, MESSENGER, MAVEN; median, mean and standard deviation are rounded to one
  decimal place, maximum and minimum are stored as they are.
\<close>

record icrate_row =
  year :: real
  std1 :: fl
  median1 :: fl
  mean1 :: fl
  max1 :: fl
  min1 :: fl

definition icrate_at :: "real \<Rightarrow> fl list \<Rightarrow> icrate_row" where
  "icrate_at y rates =
     \<lparr> year = y,
       std1 = np_round (nanstd rates) 1,
       median1 = np_round (nanmedian rates) 1,
       mean1 = np_round (nanmean rates) 1,
       max1 = nanmax rates,
       min1 = nanmin rates \<rparr>"

definition icrate :: "real list \<Rightarrow> (spacecraft \<Rightarrow> fl list) \<Rightarrow> icrate_row list" where
  "icrate yearly_mid_times_num h =
     map (\<lambda>i. icrate_at (yearly_mid_times_num ! i)
                [h WIN ! i, h VEX ! i, h STA ! i, h STB ! i, h MES ! i, h MAV ! i])
       [0..<n_years]"

text \<open>
  A reading in which the rates keep their full precision until the statistics are
  taken: the same arrays without the rounding of each entry.
\<close>

definition rate_entry_full :: "nat \<Rightarrow> fl \<Rightarrow> fl" where
  "rate_entry_full cnt days = fl_mul (fl_div (Fin (real cnt)) days) (Fin 365.24)"

definition hist_full :: "spacecraft \<Rightarrow> nat list \<Rightarrow> fl list \<Rightarrow> fl list" where
  "hist_full sc hist1 total_data_days_yearly =
     (let h = map2 rate_entry_full hist1 total_data_days_yearly
      in case sc of
           STA \<Rightarrow> h[length h - 1 := Fin 13]
         | MAV \<Rightarrow> h[7 := NaN]
         | _ \<Rightarrow> h)"

text \<open>The data frame as the script builds it, and under the full-precision reading.\<close>

definition icrate_hist ::
  "real list \<Rightarrow> (spacecraft \<Rightarrow> nat list) \<Rightarrow> (spacecraft \<Rightarrow> fl list) \<Rightarrow> icrate_row list" where
  "icrate_hist yearly_mid_times_num hist1 days =
     icrate yearly_mid_times_num (\<lambda>sc. hist sc (hist1 sc) (days sc))"

definition icrate_full_precision ::
  "real list \<Rightarrow> (spacecraft \<Rightarrow> nat list) \<Rightarrow> (spacecraft \<Rightarrow> fl list) \<Rightarrow> icrate_row list" where
  "icrate_full_precision yearly_mid_times_num hist1 days =
     icrate yearly_mid_times_num (\<lambda>sc. hist_full sc (hist1 sc) (days sc))"

section \<open>Stage 3: from the sunspot number to the ICME rate\<close>

text \<open>
  The result of \<open>scipy.stats.linregress\<close> is an input of the model: the fit itself is
  library code.
\<close>

record linregress_result =
  slope :: fl
  intercept :: fl
  rvalue :: fl
  pvalue :: fl
  stderr :: fl

text \<open>
  \<open>ssn_to_rate\<close> is defined twice.  Both definitions read the global \<open>linfit\<close> and ignore
  their second argument.  The first one is in force when \<open>mean_stddev\<close> is computed;
  the second one, which also reads the global \<open>mean_stddev\<close>, replaces it for the rest of
  the script.  On an array the function works entry by entry.
\<close>

definition ssn_to_rate_first :: "linregress_result \<Rightarrow> fl \<Rightarrow> linregress_result \<Rightarrow> fl \<times> fl \<times> fl" where
  "ssn_to_rate_first linfit ssn fitresult =
     (let rate = fl_add (fl_mul (slope linfit) ssn) (intercept linfit);
          rate_low = fl_add (fl_mul (fl_sub (slope linfit) (fl_mul (Fin 1) (stderr linfit))) ssn)
                       (intercept linfit);
          rate_up = fl_add (fl_mul (fl_add (slope linfit) (fl_mul (Fin 1) (stderr linfit))) ssn)
                      (intercept linfit)
      in (rate, rate_low, rate_up))"

definition mean_stddev ::
  "linregress_result \<Rightarrow> fl list \<Rightarrow> fl list \<Rightarrow> fl list \<Rightarrow> fl list \<Rightarrow> fl" where
  "mean_stddev linfit spots23 rc_rate23 spots24 rc_rate24 =
     np_mean
       [np_std (map2 fl_sub (map (\<lambda>ssn. fst (ssn_to_rate_first linfit ssn linfit)) spots23) rc_rate23),
        np_std (map2 fl_sub (map (\<lambda>ssn. fst (ssn_to_rate_first linfit ssn linfit)) spots24) rc_rate24)]"

definition ssn_to_rate ::
  "linregress_result \<Rightarrow> fl \<Rightarrow> fl \<Rightarrow> linregress_result \<Rightarrow> fl \<times> fl \<times> fl" where
  "ssn_to_rate linfit mean_stddev_value ssn fitresult =
     (let rate = fl_add (fl_mul (slope linfit) ssn) (intercept linfit);
          rate_low = fl_sub (fl_add (fl_mul (fl_sub (slope linfit) (fl_mul (Fin 1) (stderr linfit))) ssn)
                       (intercept linfit)) mean_stddev_value;
          rate_up = fl_add (fl_add (fl_mul (fl_add (slope linfit) (fl_mul (Fin 1) (stderr linfit))) ssn)
                      (intercept linfit)) mean_stddev_value
      in (rate, rate_low, rate_up))"

subsection \<open>The three error sources and their combination\<close>

text \<open>
  Entry by entry over the yearly arrays of a prediction scenario (PP19 and MC20 use the
  same lines): the error from the sunspot prediction, rounded to two decimals; the error
  from the linear fit, rounded to one decimal; and the spread of the observed rates,
  which is the \<open>std1\<close> column from the third row on without its last entry, followed by
  the assumed value 2.0 for three more years.  The operations round to double
  precision.
\<close>

definition ic_rate25_std_ssnpred :: "fl \<Rightarrow> fl \<Rightarrow> fl \<Rightarrow> fl" where
  "ic_rate25_std_ssnpred icmes_predict icmes_predict_low icmes_predict_high =
     np_round_d (d_div (d_add (d_sub icmes_predict_high icmes_predict)
                              (fl_abs (d_sub icmes_predict_low icmes_predict))) (Fin 2)) 2"

definition ic_rate25_std_ssnfit :: "fl \<Rightarrow> fl \<Rightarrow> fl" where
  "ic_rate25_std_ssnfit icmes_predict_25 icmes_predict_25_low =
     np_round_d (d_sub icmes_predict_25 icmes_predict_25_low) 1"

definition ic_rate25_std :: "icrate_row list \<Rightarrow> fl list" where
  "ic_rate25_std rows = butlast (map std1 (drop 2 rows)) @ [Fin 2.0, Fin 2.0, Fin 2.0]"

text \<open>
  \<open>np.round(np.sqrt(e1**2 + e2**2 + e3**2), 1)\<close>: numpy squares by multiplying the
  value with itself, and the sum is taken from left to right.
\<close>

definition ic_rate_25_std_entry :: "fl \<Rightarrow> fl \<Rightarrow> fl \<Rightarrow> fl" where
  "ic_rate_25_std_entry e1 e2 e3 =
     np_round_d (d_sqrt (d_add (d_add (d_mul e1 e1) (d_mul e2 e2)) (d_mul e3 e3))) 1"

definition ic_rate_25_pp_std :: "fl list \<Rightarrow> fl list \<Rightarrow> fl list \<Rightarrow> fl list" where
  "ic_rate_25_pp_std std_ssnpred std_ssnfit std_icrate =
     map (\<lambda>(e1, e2, e3). ic_rate_25_std_entry e1 e2 e3) (zip std_ssnpred (zip std_ssnfit std_icrate))"

definition ic_rate_25_mc20_std :: "fl list \<Rightarrow> fl list \<Rightarrow> fl list \<Rightarrow> fl list" where
  "ic_rate_25_mc20_std std_ssnpred std_ssnfit std_icrate =
     map (\<lambda>(e1, e2, e3). ic_rate_25_std_entry e1 e2 e3) (zip std_ssnpred (zip std_ssnfit std_icrate))"

subsection \<open>Yearly values made daily\<close>

datatype error = IndexError | OutOfDomain

text \<open>
  Modelled from the spec: \<open>scipy.interpolate.interp1d\<close>, which builds \<open>fpp\<close>, \<open>fpp_high\<close>,
  \<open>fpp_low\<close>, \<open>fmc\<close>, \<open>fmc_high\<close> and \<open>fmc_low\<close> from the yearly control points, is library
  code that is not among the sources.  The script calls it with \<open>kind=2\<close> and no other
  option.  Following the specification, a query outside the span of the control points
  fails with an out-of-domain condition; inside the span the value is that of the
  quadratic spline, which is a parameter here.  A call on an array fails if one of its
  entries is outside.
\<close>

definition in_span :: "real list \<Rightarrow> real \<Rightarrow> bool" where
  "in_span x t = (list_ex (\<lambda>a. a \<le> t) x \<and> list_ex (\<lambda>b. t \<le> b) x)"

text \<open>
  Modelled from the spec: the call of an interpolant on an array of query times, as the
  specification words it (out-of-domain condition instead of an extrapolated value).
\<close>

definition interp1d :: "(real list \<Rightarrow> fl list \<Rightarrow> real \<Rightarrow> fl) \<Rightarrow> real list \<Rightarrow> fl list \<Rightarrow> real list \<Rightarrow> error + fl list" where
  "interp1d spline x y x_new =
     (if list_all (in_span x) x_new then Inr (map (spline x y) x_new) else Inl OutOfDomain)"

section \<open>Stage 4: expected number of ICMEs along a trajectory\<close>

text \<open>
  \<open>psp_r\<close> holds the heliocentric distance for each day of the trajectory; the three
  curves hold the yearly rate for each day (the values of \<open>fmc\<close>, \<open>fmc_low\<close>, \<open>fmc_high\<close>
  on the daily grid, or of the PP19 interpolants).  The index array is taken from the
  trajectory and applied to the curve: numpy raises IndexError for an index beyond the
  end of the curve.  The script prints \<open>int(np.rint(...))\<close> of each sum.
\<close>

definition np_take_checked :: "'a list \<Rightarrow> nat list \<Rightarrow> error + 'a list" where
  "np_take_checked xs idx =
     (if list_all (\<lambda>k. k < length xs) idx then Inr (np_take xs idx) else Inl IndexError)"

definition icmes_psp_predict_daily :: "fl list \<Rightarrow> fl list" where
  "icmes_psp_predict_daily curve = map (\<lambda>v. fl_div v (Fin 365.24)) curve"

definition psp_l :: "fl list \<Rightarrow> fl \<Rightarrow> nat list" where
  "psp_l psp_r threshold = np_where (\<lambda>r. fl_less r threshold) psp_r"

definition icmes_psp_sum :: "fl list \<Rightarrow> fl \<Rightarrow> fl list \<Rightarrow> error + fl" where
  "icmes_psp_sum psp_r threshold curve =
     (case np_take_checked (icmes_psp_predict_daily curve) (psp_l psp_r threshold) of
        Inl e \<Rightarrow> Inl e
      | Inr selected \<Rightarrow> Inr (np_sum selected))"

definition icmes_psp_predict :: "fl list \<Rightarrow> fl \<Rightarrow> fl list \<Rightarrow> fl list \<Rightarrow> fl list \<Rightarrow> error + fl \<times> fl \<times> fl" where
  "icmes_psp_predict psp_r threshold curve curve_low curve_high =
     (case icmes_psp_sum psp_r threshold curve of
        Inl e \<Rightarrow> Inl e
      | Inr n \<Rightarrow>
          (case icmes_psp_sum psp_r threshold curve_low of
             Inl e \<Rightarrow> Inl e
           | Inr n_low \<Rightarrow>
               (case icmes_psp_sum psp_r threshold curve_high of
                  Inl e \<Rightarrow> Inl e
                | Inr n_high \<Rightarrow> Inr (n, n_low, n_high))))"

section \<open>Properties\<close>

lemma n_years_eq: "n_years = 13"
  by (simp add: n_years_def last_year_def)



subsection \<open>Coverage-corrected rate of one spacecraft and year\<close>

lemma hist_length:
  "length hist1 = length days \<Longrightarrow> length (hist sc hist1 days) = length days"
  by (cases sc) (simp_all add: hist_def Let_def)

lemma hist_nth_plain:
  assumes "length hist1 = length days" and "i < length days"
    and "\<not> (sc = STA \<and> i = length days - 1)" and "\<not> (sc = MAV \<and> i = 7)"
  shows "hist sc hist1 days ! i = rate_entry (hist1 ! i) (days ! i)"
  using assms by (cases sc) (simp_all add: hist_def Let_def)




subsection \<open>Rounding of the rates before the statistics\<close>

lemma np_round_13: "np_round (Fin 13) 1 = Fin 13"
  by (simp add: np_round_def rint_def)

lemma np_round_NaN: "np_round NaN d = NaN"
  by (simp add: np_round_def)

lemma rate_entry_round: "rate_entry c d = np_round (rate_entry_full c d) 1"
  by (simp add: rate_entry_def rate_entry_full_def)

lemma map2_rate_entry_round:
  "map2 rate_entry c d = map (\<lambda>x. np_round x 1) (map2 rate_entry_full c d)"
  by (simp add: rate_entry_round split_def del: One_nat_def)

lemma hist_round: "hist sc c d = map (\<lambda>x. np_round x 1) (hist_full sc c d)"
proof -
  let ?h = "map2 rate_entry_full c d"
  have "(map (\<lambda>x. np_round x 1) ?h)[length ?h - 1 := Fin 13]
          = map (\<lambda>x. np_round x 1) (?h[length ?h - 1 := Fin 13])"
    by (simp only: map_update np_round_13)
  moreover have "(map (\<lambda>x. np_round x 1) ?h)[7 := NaN] = map (\<lambda>x. np_round x 1) (?h[7 := NaN])"
    by (simp only: map_update np_round_NaN)
  ultimately show ?thesis
    by (cases sc) (simp_all only: hist_def hist_full_def Let_def map2_rate_entry_round
        spacecraft.case length_map)
qed

text \<open>
  C2 (as the code has it).  Each per-spacecraft rate is rounded to one decimal place
  when it is computed, and the statistics of a year are taken from these rounded
  rates: the data frame is the one obtained from the full-precision rates after
  rounding every entry.
\<close>

theorem icrate_from_rounded_rates:
  "hist sc c d = map (\<lambda>x. np_round x 1) (hist_full sc c d)
   \<and> icrate_hist yrs hist1 days =
       icrate yrs (\<lambda>sc. map (\<lambda>x. np_round x 1) (hist_full sc (hist1 sc) (days sc)))"
  by (simp add: icrate_hist_def hist_round)

text \<open>
  With Wind alone reporting, 10 events in 300 days, the maximum of the first year is
  12.2 in the data frame; taken from the full-precision rate it would be 12.1746...
\<close>

theorem icrate_full_precision_counterexample:
  "max1 (icrate_hist (replicate 13 0) (\<lambda>sc. replicate 13 10)
          (\<lambda>sc. if sc = WIN then replicate 13 (Fin 300) else replicate 13 NaN) ! 0) = Fin 12.2
   \<and> max1 (icrate_full_precision (replicate 13 0) (\<lambda>sc. replicate 13 10)
          (\<lambda>sc. if sc = WIN then replicate 13 (Fin 300) else replicate 13 NaN) ! 0) = Fin (9131 / 750)
   \<and> Fin 12.2 \<noteq> Fin (9131 / 750)"
  by (simp add: icrate_hist_def icrate_full_precision_def icrate_def icrate_at_def n_years_eq
      hist_def hist_full_def rate_entry_def rate_entry_full_def np_round_def rint_def
      nanmax_def nan_drop_def isnan_def fl_max_def Let_def)

subsection \<open>Available days of MAVEN\<close>

text \<open>
  C9.  The available days of a MAVEN year should be the summed differences, below 0.25
  days each, between consecutive samples of that year with a defined \<open>bt\<close>.  The script
  reads the times at the positions found inside the year's slice from the start of the
  whole array instead.  With two samples 0.1 days apart in the first year and two
  samples 0.2 days apart in the second year, the second year gets 0.1 days instead of
  0.2.
\<close>

theorem total_data_days_yearly_mav_second_year:
  "total_data_days_yearly_mav
     [\<lparr>time = 10, bt = Fin 5\<rparr>, \<lparr>time = 10.1, bt = Fin 5\<rparr>,
      \<lparr>time = 400, bt = Fin 5\<rparr>, \<lparr>time = 400.2, bt = Fin 5\<rparr>]
     (map (\<lambda>i. 365 * real i) [0..<13]) (map (\<lambda>i. 365 * real i + 364) [0..<13]) ! 1 = Fin 0.1
   \<and> mav_days_in_year
     [\<lparr>time = 10, bt = Fin 5\<rparr>, \<lparr>time = 10.1, bt = Fin 5\<rparr>,
      \<lparr>time = 400, bt = Fin 5\<rparr>, \<lparr>time = 400.2, bt = Fin 5\<rparr>] 365 729 = 0.2"
  by code_simp

subsection \<open>The conversion from sunspot number to ICME rate\<close>

lemma fl_mul_one: "fl_mul (Fin 1) x = x"
  by (cases x) (simp_all add: fl_inf_def)

lemma fl_add_zero: "fl_add (Fin 0) x = x"
  by (cases x) simp_all

lemma foldl_fl_add_Fin: "foldl fl_add (Fin a) (map Fin rs) = Fin (a + sum_list rs)"
  by (induction rs arbitrary: a) (simp_all add: algebra_simps)

lemma np_sum_Fin: "np_sum (map Fin rs) = Fin (sum_list rs)"
  by (simp add: np_sum_def foldl_fl_add_Fin)

lemma np_mean_Fin: "rs \<noteq> [] \<Longrightarrow> np_mean (map Fin rs) = Fin (sum_list rs / real (length rs))"
  by (simp add: np_mean_def np_sum_Fin)

lemma np_mean_pair: "np_mean [x, y] = fl_div (fl_add x y) (Fin 2)"
  by (simp add: np_mean_def np_sum_def fl_add_zero)

lemma np_var_Fin:
  assumes "rs \<noteq> []"
  shows "np_var (map Fin rs) =
    Fin (sum_list (map (\<lambda>r. (r - sum_list rs / real (length rs)) * (r - sum_list rs / real (length rs))) rs)
           / real (length rs))"
proof -
  let ?m = "sum_list rs / real (length rs)"
  have "map (\<lambda>x. fl_mul (fl_sub x (Fin ?m)) (fl_sub x (Fin ?m))) (map Fin rs)
          = map Fin (map (\<lambda>r. (r - ?m) * (r - ?m)) rs)"
    by (simp add: fl_sub_def)
  then show ?thesis
    using assms by (simp add: np_var_def np_mean_Fin Let_def del: map_map)
qed

lemma sum_list_squares_nonneg: "0 \<le> sum_list (map (\<lambda>r. (r - m) * (r - m)) (rs :: real list))"
  by (rule sum_list_nonneg) auto

lemma np_std_Fin:
  assumes "rs \<noteq> []"
  shows "\<exists>v. 0 \<le> v \<and> np_std (map Fin rs) = Fin v"
proof -
  let ?m = "sum_list rs / real (length rs)"
  let ?v = "sum_list (map (\<lambda>r. (r - ?m) * (r - ?m)) rs) / real (length rs)"
  have "0 \<le> ?v"
    using sum_list_squares_nonneg [of ?m rs] by simp
  then have "np_std (map Fin rs) = Fin (sqrt ?v)"
    using assms by (simp add: np_std_def np_var_Fin not_less [symmetric])
  then show ?thesis
    using \<open>0 \<le> ?v\<close> by (intro exI [of _ "sqrt ?v"]) simp
qed


lemma residual_Fin:
  "map2 fl_sub (map (\<lambda>ssn. fl_add (fl_mul (Fin a) ssn) (Fin b)) (map Fin ss)) (map Fin rs)
     = map Fin (map2 (\<lambda>s r. a * s + b - r) ss rs)"
  by (induction ss rs rule: list_induct2') (simp_all add: fl_sub_def)

lemma ssn_to_rate_first_fst:
  "fst (ssn_to_rate_first linfit ssn fitresult) = fl_add (fl_mul (slope linfit) ssn) (intercept linfit)"
  by (simp add: ssn_to_rate_first_def Let_def)

lemma mean_stddev_eq:
  "mean_stddev linfit spots23 rc_rate23 spots24 rc_rate24 =
     fl_div (fl_add
       (np_std (map2 fl_sub (map (\<lambda>ssn. fl_add (fl_mul (slope linfit) ssn) (intercept linfit)) spots23) rc_rate23))
       (np_std (map2 fl_sub (map (\<lambda>ssn. fl_add (fl_mul (slope linfit) ssn) (intercept linfit)) spots24) rc_rate24)))
       (Fin 2)"
  by (simp only: mean_stddev_def ssn_to_rate_first_fst np_mean_pair)

lemma mean_stddev_Fin:
  assumes "length s23 = length r23" and "s23 \<noteq> []" and "length s24 = length r24" and "s24 \<noteq> []"
  shows "\<exists>m. 0 \<le> m \<and>
    mean_stddev \<lparr>slope = Fin a, intercept = Fin b, rvalue = r, pvalue = p, stderr = Fin e\<rparr>
      (map Fin s23) (map Fin r23) (map Fin s24) (map Fin r24) = Fin m"
proof -
  have n23: "map2 (\<lambda>s r. a * s + b - r) s23 r23 \<noteq> []"
    using assms(1,2) by (cases s23; cases r23) simp_all
  have n24: "map2 (\<lambda>s r. a * s + b - r) s24 r24 \<noteq> []"
    using assms(3,4) by (cases s24; cases r24) simp_all
  obtain v where v: "0 \<le> v" "np_std (map Fin (map2 (\<lambda>s r. a * s + b - r) s23 r23)) = Fin v"
    using np_std_Fin [OF n23] by blast
  obtain w where w: "0 \<le> w" "np_std (map Fin (map2 (\<lambda>s r. a * s + b - r) s24 r24)) = Fin w"
    using np_std_Fin [OF n24] by blast
  have "mean_stddev \<lparr>slope = Fin a, intercept = Fin b, rvalue = r, pvalue = p, stderr = Fin e\<rparr>
      (map Fin s23) (map Fin r23) (map Fin s24) (map Fin r24) = Fin ((v + w) / 2)"
    by (simp add: mean_stddev_eq residual_Fin v w del: map_map)
  then show ?thesis
    using v(1) w(1) by (intro exI [of _ "(v + w) / 2"]) simp
qed

text \<open>
  C5.  For every sunspot number the conversion returns the rate
  \<open>slope * ssn + intercept\<close>, the lower value \<open>(slope - stderr) * ssn + intercept - mean_stddev\<close>
  and the upper value \<open>(slope + stderr) * ssn + intercept + mean_stddev\<close>, where
  \<open>mean_stddev\<close> is the mean, over the two reference cycles, of the standard deviation of
  the fitted rate minus the observed rate.
\<close>

theorem ssn_to_rate_triple:
  "ssn_to_rate linfit msd ssn fitresult =
     (fl_add (fl_mul (slope linfit) ssn) (intercept linfit),
      fl_sub (fl_add (fl_mul (fl_sub (slope linfit) (stderr linfit)) ssn) (intercept linfit)) msd,
      fl_add (fl_add (fl_mul (fl_add (slope linfit) (stderr linfit)) ssn) (intercept linfit)) msd)
   \<and> ssn_to_rate \<lparr>slope = Fin a, intercept = Fin b, rvalue = r, pvalue = p, stderr = Fin e\<rparr>
        (Fin m) (Fin x) fitresult =
     (Fin (a * x + b), Fin ((a - e) * x + b - m), Fin ((a + e) * x + b + m))
   \<and> mean_stddev linfit spots23 rc_rate23 spots24 rc_rate24 =
     fl_div (fl_add
       (np_std (map2 fl_sub (map (\<lambda>ssn. fl_add (fl_mul (slope linfit) ssn) (intercept linfit)) spots23) rc_rate23))
       (np_std (map2 fl_sub (map (\<lambda>ssn. fl_add (fl_mul (slope linfit) ssn) (intercept linfit)) spots24) rc_rate24)))
       (Fin 2)"
  by (simp add: ssn_to_rate_def Let_def fl_mul_one fl_sub_def mean_stddev_eq)

text \<open>
  C10.  For a non-negative sunspot number the three values are ordered,
  \<open>rate_low \<le> rate \<le> rate_up\<close>: the standard error of the slope, as \<open>linregress\<close>
  reports it, is non-negative, and \<open>mean_stddev\<close> is non-negative as a mean of standard
  deviations (the reference cycles being non-empty series of finite values).
\<close>

theorem ssn_to_rate_ordered:
  assumes "0 \<le> e" and "0 \<le> x"
    and "length s23 = length r23" and "s23 \<noteq> []" and "length s24 = length r24" and "s24 \<noteq> []"
    and "linfit = \<lparr>slope = Fin a, intercept = Fin b, rvalue = r, pvalue = p, stderr = Fin e\<rparr>"
    and "res = ssn_to_rate linfit
                 (mean_stddev linfit (map Fin s23) (map Fin r23) (map Fin s24) (map Fin r24))
                 (Fin x) fitresult"
  shows "fl_le (fst (snd res)) (fst res) \<and> fl_le (fst res) (snd (snd res))"
proof -
  obtain m where m: "0 \<le> m"
    "mean_stddev linfit (map Fin s23) (map Fin r23) (map Fin s24) (map Fin r24) = Fin m"
    using mean_stddev_Fin [OF assms(3-6)] assms(7) by blast
  have "e * x \<ge> 0"
    using assms(1,2) by simp
  then have "(a - e) * x + b - m \<le> a * x + b" and "a * x + b \<le> (a + e) * x + b + m"
    using m(1) by (simp_all add: algebra_simps)
  then show ?thesis
    using m(2) by (simp add: assms(7,8) ssn_to_rate_def Let_def fl_sub_def)
qed

theorem ssn_to_rate_ordered_witness:
  "(0::real) \<le> 0.02 \<and> (0::real) \<le> 100
   \<and> length [10, 50 :: real] = length [8, 14 :: real] \<and> [10, 50 :: real] \<noteq> []
   \<and> length [20, 60 :: real] = length [8, 18 :: real] \<and> [20, 60 :: real] \<noteq> []
   \<and> fl_le (fst (snd (ssn_to_rate \<lparr>slope = Fin 0.2, intercept = Fin 5, rvalue = Fin 0.9, pvalue = Fin 0.01, stderr = Fin 0.02\<rparr>
          (mean_stddev \<lparr>slope = Fin 0.2, intercept = Fin 5, rvalue = Fin 0.9, pvalue = Fin 0.01, stderr = Fin 0.02\<rparr>
             (map Fin [10, 50]) (map Fin [8, 14]) (map Fin [20, 60]) (map Fin [8, 18]))
          (Fin 100) \<lparr>slope = Fin 0.2, intercept = Fin 5, rvalue = Fin 0.9, pvalue = Fin 0.01, stderr = Fin 0.02\<rparr>)))
        (Fin 25)
   \<and> fl_le (Fin 25) (snd (snd (ssn_to_rate \<lparr>slope = Fin 0.2, intercept = Fin 5, rvalue = Fin 0.9, pvalue = Fin 0.01, stderr = Fin 0.02\<rparr>
          (mean_stddev \<lparr>slope = Fin 0.2, intercept = Fin 5, rvalue = Fin 0.9, pvalue = Fin 0.01, stderr = Fin 0.02\<rparr>
             (map Fin [10, 50]) (map Fin [8, 14]) (map Fin [20, 60]) (map Fin [8, 18]))
          (Fin 100) \<lparr>slope = Fin 0.2, intercept = Fin 5, rvalue = Fin 0.9, pvalue = Fin 0.01, stderr = Fin 0.02\<rparr>)))"
  using ssn_to_rate_ordered [where e = "0.02" and x = 100 and ?s23.0 = "[10, 50]" and ?r23.0 = "[8, 14]"
      and ?s24.0 = "[20, 60]" and ?r24.0 = "[8, 18]" and a = "0.2" and b = 5 and r = "Fin 0.9"
      and p = "Fin 0.01"
      and fitresult = "\<lparr>slope = Fin 0.2, intercept = Fin 5, rvalue = Fin 0.9, pvalue = Fin 0.01, stderr = Fin 0.02\<rparr>",
      OF _ _ _ _ _ _ refl refl]
  by (simp add: ssn_to_rate_def Let_def)

subsection \<open>Queries outside the yearly control points\<close>

lemma in_span_above: "list_all (\<lambda>a. a < t) x \<Longrightarrow> \<not> in_span x t"
  by (auto simp: in_span_def list_all_iff list_ex_iff)

lemma in_span_below: "list_all (\<lambda>a. t < a) x \<Longrightarrow> \<not> in_span x t"
  by (auto simp: in_span_def list_all_iff list_ex_iff)

text \<open>
  C8.  A query of a densification interpolant at a time outside the span of the yearly
  control points (above all of them or below all of them) fails with the out-of-domain
  condition, whatever the control values are and whatever else is queried in the same
  call; one day past the last control point is such a time.
\<close>

theorem interp1d_out_of_domain:
  assumes "list_all (\<lambda>a. a < t) x \<or> list_all (\<lambda>a. t < a) x"
  shows "interp1d spline x y (before @ t # after) = Inl OutOfDomain"
  using assms in_span_above [of t x] in_span_below [of t x]
  by (auto simp: interp1d_def)

theorem interp1d_out_of_domain_witness:
  "(list_all (\<lambda>a. a < 731) [0, 365, 730 :: real] \<or> list_all (\<lambda>a. (731::real) < a) [0, 365, 730 :: real])
   \<and> interp1d (\<lambda>x y t. Fin 0) [0, 365, 730] [Fin 10, Fin 12, Fin 11] [0, 365.5, 731] = Inl OutOfDomain
   \<and> interp1d (\<lambda>x y t. Fin 0) [0, 365, 730] [Fin 10, Fin 12, Fin 11] [0, 365.5, 730] = Inr [Fin 0, Fin 0, Fin 0]"
  using interp1d_out_of_domain [of 731 "[0, 365, 730]" "\<lambda>x y t. Fin 0" "[Fin 10, Fin 12, Fin 11]" "[0, 365.5]" "[]"]
  by (simp add: interp1d_def in_span_def)

subsection \<open>Expected counts inside a distance threshold\<close>

lemma np_take_checked_in_range:
  "list_all (\<lambda>k. k < length xs) idx \<Longrightarrow> np_take_checked xs idx = Inr (map (\<lambda>k. xs ! k) idx)"
  by (simp add: np_take_checked_def np_take_def)

lemma psp_l_bound: "list_all (\<lambda>k. k < length psp_r) (psp_l psp_r threshold)"
  by (simp add: psp_l_def np_where_def list_all_iff)

lemma icmes_psp_sum_eq:
  assumes "length psp_r \<le> length curve"
  shows "icmes_psp_sum psp_r threshold curve =
     Inr (np_sum (map (\<lambda>k. fl_div (curve ! k) (Fin 365.24))
            (filter (\<lambda>k. fl_less (psp_r ! k) threshold) [0..<length psp_r])))"
proof -
  have "list_all (\<lambda>k. k < length (icmes_psp_predict_daily curve)) (psp_l psp_r threshold)"
    using assms psp_l_bound [of psp_r threshold]
    by (auto simp: list_all_iff icmes_psp_predict_daily_def)
  then have eq1: "np_take_checked (icmes_psp_predict_daily curve) (psp_l psp_r threshold)
      = Inr (map (\<lambda>k. icmes_psp_predict_daily curve ! k) (psp_l psp_r threshold))"
    by (rule np_take_checked_in_range)
  have eq2: "map (\<lambda>k. icmes_psp_predict_daily curve ! k) (psp_l psp_r threshold)
      = map (\<lambda>k. fl_div (curve ! k) (Fin 365.24)) (psp_l psp_r threshold)"
    using assms by (auto simp: psp_l_def np_where_def icmes_psp_predict_daily_def)
  show ?thesis
    unfolding icmes_psp_sum_def eq1 eq2 by (simp add: psp_l_def np_where_def)
qed

lemma icmes_psp_sum_none:
  assumes "list_all (\<lambda>r. \<not> fl_less r threshold) psp_r"
  shows "icmes_psp_sum psp_r threshold curve = Inr (Fin 0)"
proof -
  have "psp_l psp_r threshold = []"
    using assms by (auto simp: psp_l_def np_where_def list_all_iff filter_empty_conv)
  then show ?thesis
    by (simp add: icmes_psp_sum_def np_take_checked_def np_take_def np_sum_def)
qed

text \<open>
  C7.  For a trajectory that is not longer than the daily curves, the result is the
  triple of the sums, over the indices where the distance is below the threshold, of
  the mean, lower and upper yearly rate divided by 365.24.  When no sample is below the
  threshold the result is the triple of zeros, not an error.
\<close>

theorem icmes_psp_predict_sums:
  "(length psp_r \<le> length curve \<and> length psp_r \<le> length curve_low \<and> length psp_r \<le> length curve_high
      \<longrightarrow> icmes_psp_predict psp_r threshold curve curve_low curve_high =
        Inr (np_sum (map (\<lambda>k. fl_div (curve ! k) (Fin 365.24))
               (filter (\<lambda>k. fl_less (psp_r ! k) threshold) [0..<length psp_r])),
             np_sum (map (\<lambda>k. fl_div (curve_low ! k) (Fin 365.24))
               (filter (\<lambda>k. fl_less (psp_r ! k) threshold) [0..<length psp_r])),
             np_sum (map (\<lambda>k. fl_div (curve_high ! k) (Fin 365.24))
               (filter (\<lambda>k. fl_less (psp_r ! k) threshold) [0..<length psp_r]))))
   \<and> (list_all (\<lambda>r. \<not> fl_less r threshold) psp_r
      \<longrightarrow> icmes_psp_predict psp_r threshold curve curve_low curve_high = Inr (Fin 0, Fin 0, Fin 0))"
  by (simp add: icmes_psp_predict_def icmes_psp_sum_eq icmes_psp_sum_none)

text \<open>
  Ten daily samples, four of them below 0.3 AU, and a constant rate of 0.05 events per
  day: the expected count is 0.2.
\<close>

theorem icmes_psp_predict_sums_witness:
  "length [Fin 0.5, Fin 0.2, Fin 0.25, Fin 0.4, Fin 0.1, Fin 0.6, Fin 0.7, Fin 0.29, Fin 0.9, Fin 1.0] \<le> length (replicate 12 (Fin 18.262))
   \<and> length [Fin 0.5, Fin 0.2, Fin 0.25, Fin 0.4, Fin 0.1, Fin 0.6, Fin 0.7, Fin 0.29, Fin 0.9, Fin 1.0] \<le> length (replicate 12 (Fin 0))
   \<and> length [Fin 0.5, Fin 0.2, Fin 0.25, Fin 0.4, Fin 0.1, Fin 0.6, Fin 0.7, Fin 0.29, Fin 0.9, Fin 1.0] \<le> length (replicate 12 (Fin 36.524))
   \<and> icmes_psp_predict [Fin 0.5, Fin 0.2, Fin 0.25, Fin 0.4, Fin 0.1, Fin 0.6, Fin 0.7, Fin 0.29, Fin 0.9, Fin 1.0]
        (Fin 0.3) (replicate 12 (Fin 18.262)) (replicate 12 (Fin 0)) (replicate 12 (Fin 36.524))
      = Inr (Fin 0.2, Fin 0, Fin 0.4)
   \<and> list_all (\<lambda>r. \<not> fl_less r (Fin 0.05)) [Fin 0.5, Fin 0.2]
   \<and> icmes_psp_predict [Fin 0.5, Fin 0.2] (Fin 0.05) [Fin 18.262] [] [Fin 36.524, Fin 1] = Inr (Fin 0, Fin 0, Fin 0)"
  using icmes_psp_predict_sums [of "[Fin 0.5, Fin 0.2, Fin 0.25, Fin 0.4, Fin 0.1, Fin 0.6, Fin 0.7, Fin 0.29, Fin 0.9, Fin 1.0]"
      "replicate 12 (Fin 18.262)" "replicate 12 (Fin 0)" "replicate 12 (Fin 36.524)" "Fin 0.3"]
    icmes_psp_predict_sums [of "[Fin 0.5, Fin 0.2]" "[Fin 18.262]" "[]" "[Fin 36.524, Fin 1]" "Fin 0.05"]
  by (simp add: fl_less_def np_sum_def upt_conv_Cons)

subsection \<open>Undefined coverage\<close>

lemma rate_entry_NaN: "rate_entry c NaN = NaN"
  by (simp add: rate_entry_def np_round_def)

lemma hist_nth_undefined:
  assumes "length hist1 = n_years" and "length days = n_years" and "i < n_years"
    and "days ! i = NaN" and "\<not> (sc = STA \<and> i = n_years - 1)"
  shows "hist sc hist1 days ! i = NaN"
proof (cases "sc = MAV \<and> i = 7")
  case True
  then show ?thesis
    using assms(1,2) by (simp add: hist_def Let_def n_years_eq)
next
  case False
  then have "hist sc hist1 days ! i = rate_entry (hist1 ! i) (days ! i)"
    using assms by (intro hist_nth_plain) simp_all
  then show ?thesis
    by (simp add: assms(4) rate_entry_NaN)
qed

lemma total_data_days_yearly_sta_no_data:
  assumes "i < n_years"
    and "list_all (\<lambda>s. \<not> (starts ! i < time s \<and> time s < ends ! i \<and> \<not> isnan (bt s))) sta"
  shows "total_data_days_yearly_sta sta starts ends ! i = NaN"
proof -
  let ?thisyear = "np_where (\<lambda>t. starts ! i < t \<and> t < ends ! i) (map time sta)"
  have mem: "isnan (map bt sta ! k)" if "k \<in> set ?thisyear" for k
    using assms(2) that by (auto simp: np_where_def list_all_iff)
  have "isnan (np_take (map bt sta) ?thisyear ! j)" if "j < length ?thisyear" for j
    using mem [OF nth_mem [OF that]] that by (simp add: np_take_def)
  then have "np_where (\<lambda>b. \<not> isnan b) (np_take (map bt sta) ?thisyear) = []"
    by (simp add: np_where_def filter_empty_conv np_take_def)
  then show ?thesis
    using assms(1) by (simp add: total_data_days_yearly_sta_def Let_def)
qed

lemma nan_drop_idem: "nan_drop (nan_drop xs) = nan_drop xs"
  by (simp add: nan_drop_def)

lemma icrate_at_nan_drop: "icrate_at y (nan_drop xs) = icrate_at y xs"
  by (simp add: icrate_at_def nanstd_def nanmedian_def nanmean_def nanmax_def nanmin_def
      nan_drop_idem)

lemma nan_drop_insert_NaN: "nan_drop (before @ NaN # after) = nan_drop (before @ after)"
  by (simp add: nan_drop_def isnan_def)

lemma nan_drop_all_NaN: "list_all isnan rates \<Longrightarrow> nan_drop rates = []"
  by (auto simp: nan_drop_def filter_empty_conv list_all_iff)

lemma icrate_at_all_NaN:
  assumes "list_all isnan rates"
  shows "icrate_at y rates =
    \<lparr>year = y, std1 = NaN, median1 = NaN, mean1 = NaN, max1 = NaN, min1 = NaN\<rparr>"
  using nan_drop_all_NaN [OF assms]
  by (simp add: icrate_at_def nanstd_def nanmedian_def nanmean_def nanmax_def nanmin_def
      np_std_def np_var_def np_mean_def np_sum_def np_round_NaN Let_def)

lemma icrate_at_example:
  "icrate_at y [Fin 10, NaN] =
     \<lparr>year = y, std1 = Fin 0, median1 = Fin 10, mean1 = Fin 10, max1 = Fin 10, min1 = Fin 10\<rparr>"
  by (simp add: icrate_at_def nanstd_def nanmedian_def nanmean_def nanmax_def nanmin_def
      nan_drop_def isnan_def np_std_def np_var_def np_mean_def np_sum_def np_median_def np_sort_def
      np_round_def rint_def fl_sub_def Let_def)

text \<open>
  C3 (as the code has it).  When no sample of a year has a defined \<open>bt\<close>, the available
  days stay NaN.  For every spacecraft and year other than STEREO-A in the last year
  (which is set to 13 by hand), NaN available days give a NaN rate, not zero and not an
  error.  A NaN rate takes no part in the statistics of its year: the row of the data
  frame is that of the defined rates, and an added NaN changes nothing.  When all rates
  of a year are NaN, all five statistics are NaN.  The rates 10.0 and NaN give mean,
  median, minimum and maximum 10.0 and standard deviation 0.0.
\<close>

theorem undefined_coverage_excluded:
  assumes "i < n_years" and "length hist1 = n_years" and "length days = n_years"
  shows "(list_all (\<lambda>s. \<not> (starts ! i < time s \<and> time s < ends ! i \<and> \<not> isnan (bt s))) sta
            \<longrightarrow> total_data_days_yearly_sta sta starts ends ! i = NaN)
       \<and> (days ! i = NaN \<and> \<not> (sc = STA \<and> i = n_years - 1) \<longrightarrow> hist sc hist1 days ! i = NaN)
       \<and> icrate yrs h ! i = icrate_at (yrs ! i)
            (nan_drop [h WIN ! i, h VEX ! i, h STA ! i, h STB ! i, h MES ! i, h MAV ! i])
       \<and> icrate_at y (before @ NaN # after) = icrate_at y (before @ after)
       \<and> (list_all isnan rates \<longrightarrow> icrate_at y rates =
            \<lparr>year = y, std1 = NaN, median1 = NaN, mean1 = NaN, max1 = NaN, min1 = NaN\<rparr>)
       \<and> icrate_at y [Fin 10, NaN] =
            \<lparr>year = y, std1 = Fin 0, median1 = Fin 10, mean1 = Fin 10, max1 = Fin 10, min1 = Fin 10\<rparr>"
proof (intro conjI impI)
  show "total_data_days_yearly_sta sta starts ends ! i = NaN"
    if "list_all (\<lambda>s. \<not> (starts ! i < time s \<and> time s < ends ! i \<and> \<not> isnan (bt s))) sta"
    using assms(1) that by (rule total_data_days_yearly_sta_no_data)
  show "hist sc hist1 days ! i = NaN" if "days ! i = NaN \<and> \<not> (sc = STA \<and> i = n_years - 1)"
    using assms that by (intro hist_nth_undefined) simp_all
  show "icrate yrs h ! i = icrate_at (yrs ! i)
            (nan_drop [h WIN ! i, h VEX ! i, h STA ! i, h STB ! i, h MES ! i, h MAV ! i])"
    using assms(1) by (simp add: icrate_def icrate_at_nan_drop)
  have "icrate_at y (before @ NaN # after) = icrate_at y (nan_drop (before @ NaN # after))"
    by (simp only: icrate_at_nan_drop)
  also have "\<dots> = icrate_at y (nan_drop (before @ after))"
    by (simp only: nan_drop_insert_NaN)
  finally show "icrate_at y (before @ NaN # after) = icrate_at y (before @ after)"
    by (simp only: icrate_at_nan_drop)
  show "icrate_at y rates = \<lparr>year = y, std1 = NaN, median1 = NaN, mean1 = NaN, max1 = NaN, min1 = NaN\<rparr>"
    if "list_all isnan rates"
    using that by (rule icrate_at_all_NaN)
  show "icrate_at y [Fin 10, NaN] =
     \<lparr>year = y, std1 = Fin 0, median1 = Fin 10, mean1 = Fin 10, max1 = Fin 10, min1 = Fin 10\<rparr>"
    by (rule icrate_at_example)
qed

theorem undefined_coverage_excluded_witness:
  "0 < n_years \<and> length (replicate 13 (10::nat)) = n_years \<and> length (replicate 13 NaN) = n_years
   \<and> list_all (\<lambda>s. \<not> (map (\<lambda>i. 365 * real i) [0..<13] ! 0 < time s
                      \<and> time s < map (\<lambda>i. 365 * real i + 364) [0..<13] ! 0 \<and> \<not> isnan (bt s)))
        [\<lparr>time = 10, bt = NaN\<rparr>, \<lparr>time = 400, bt = Fin 5\<rparr>]
   \<and> total_data_days_yearly_sta [\<lparr>time = 10, bt = NaN\<rparr>, \<lparr>time = 400, bt = Fin 5\<rparr>]
        (map (\<lambda>i. 365 * real i) [0..<13]) (map (\<lambda>i. 365 * real i + 364) [0..<13]) ! 0 = NaN
   \<and> replicate 13 NaN ! 0 = NaN \<and> \<not> (WIN = STA \<and> (0::nat) = n_years - 1)
   \<and> hist WIN (replicate 13 10) (replicate 13 NaN) ! 0 = NaN
   \<and> icrate (replicate 13 2007.5) (\<lambda>sc. if sc = VEX then replicate 13 (Fin 10) else replicate 13 NaN) ! 0
        = icrate_at 2007.5 [Fin 10]
   \<and> icrate_at 2007.5 ([Fin 10] @ NaN # []) = icrate_at 2007.5 ([Fin 10] @ [])
   \<and> list_all isnan [NaN, NaN]
   \<and> icrate_at 2007.5 [NaN, NaN] =
        \<lparr>year = 2007.5, std1 = NaN, median1 = NaN, mean1 = NaN, max1 = NaN, min1 = NaN\<rparr>"
  using undefined_coverage_excluded [of 0 "replicate 13 10" "replicate 13 NaN"
      "map (\<lambda>i. 365 * real i) [0..<13]" "map (\<lambda>i. 365 * real i + 364) [0..<13]"
      "[\<lparr>time = 10, bt = NaN\<rparr>, \<lparr>time = 400, bt = Fin 5\<rparr>]" WIN
      "replicate 13 2007.5" "\<lambda>sc. if sc = VEX then replicate 13 (Fin 10) else replicate 13 NaN"
      "2007.5" "[Fin 10]" "[]" "[NaN, NaN]"]
  by (simp add: n_years_eq isnan_def nan_drop_def)

text \<open>
  The claim as written fails for STEREO-A in the last year: with NaN available days the
  rate is 13, and it enters the statistics of that year.
\<close>

theorem undefined_coverage_sta_counterexample:
  "replicate 13 NaN ! 12 = NaN
   \<and> hist STA (replicate 13 10) (replicate 13 NaN) ! 12 = Fin 13
   \<and> mean1 (icrate_hist (replicate 13 0) (\<lambda>sc. replicate 13 10) (\<lambda>sc. replicate 13 NaN) ! 12) = Fin 13"
  by (simp add: icrate_hist_def icrate_def icrate_at_def n_years_eq hist_def Let_def rate_entry_NaN
      nanmean_def nan_drop_def isnan_def np_mean_def np_sum_def np_round_def rint_def)

subsection \<open>Order of the floats\<close>

lemma fl_le_refl: "x \<noteq> NaN \<Longrightarrow> fl_le x x"
  by (cases x) simp_all

lemma fl_le_trans: "fl_le x y \<Longrightarrow> fl_le y z \<Longrightarrow> fl_le x z"
  by (cases x; cases y; cases z) simp_all

lemma fl_le_total: "x \<noteq> NaN \<Longrightarrow> y \<noteq> NaN \<Longrightarrow> fl_le x y \<or> fl_le y x"
  by (cases x; cases y) auto

lemma fl_le_not_NaN: "fl_le x y \<Longrightarrow> x \<noteq> NaN \<and> y \<noteq> NaN"
  by (cases x; cases y) simp_all

subsection \<open>Rounding\<close>

lemma rint_bounds: "rint x \<le> x + 1 / 2 \<and> x - 1 / 2 \<le> rint x"
proof -
  have f: "of_int \<lfloor>x\<rfloor> \<le> x" "x < of_int \<lfloor>x\<rfloor> + 1"
    by linarith+
  consider "x - of_int \<lfloor>x\<rfloor> < 1 / 2" | "1 / 2 < x - of_int \<lfloor>x\<rfloor>"
    | "x - of_int \<lfloor>x\<rfloor> = 1 / 2"
    by linarith
  then show ?thesis
  proof cases
    case 1
    then have "rint x = of_int \<lfloor>x\<rfloor>" by (simp add: rint_def Let_def)
    then show ?thesis using f 1 by linarith
  next
    case 2
    then have "rint x = of_int \<lfloor>x\<rfloor> + 1" by (simp add: rint_def Let_def)
    then show ?thesis using f 2 by linarith
  next
    case 3
    then have "rint x = of_int \<lfloor>x\<rfloor> \<or> rint x = of_int \<lfloor>x\<rfloor> + 1"
      by (simp add: rint_def Let_def)
    then show ?thesis using f 3 by linarith
  qed
qed

lemma rint_is_int: "\<exists>k::int. rint x = of_int k"
  by (simp add: rint_def Let_def)

lemma rint_of_int: "rint (of_int k) = of_int k"
  by (simp add: rint_def Let_def)

lemma rint_mono:
  assumes "a \<le> b"
  shows "rint a \<le> rint b"
proof (cases "a = b")
  case True
  then show ?thesis by simp
next
  case False
  then have "a < b" using assms by simp
  obtain k :: int where k: "rint a = of_int k" using rint_is_int by blast
  obtain j :: int where j: "rint b = of_int j" using rint_is_int by blast
  have "of_int k \<le> a + 1 / 2" using rint_bounds [of a] k by simp
  moreover have "b - 1 / 2 \<le> of_int j" using rint_bounds [of b] j by simp
  ultimately have "(of_int k :: real) < of_int j + 1"
    using \<open>a < b\<close> by linarith
  then have "k < j + 1"
    by (metis of_int_1 of_int_add of_int_less_iff)
  then show ?thesis
    by (simp add: k j)
qed

lemma np_round_PInf: "np_round PInf 1 = PInf"
  by (simp add: np_round_def fl_inf_def)

lemma np_round_MInf: "np_round MInf 1 = MInf"
  by (simp add: np_round_def fl_inf_def)

lemma np_round_NaN1: "np_round NaN 1 = NaN"
  by (simp add: np_round_def)

lemma np_round_Fin: "np_round (Fin a) 1 = Fin (rint (a * 10) / 10)"
  by (simp add: np_round_def)

lemma np_round_mono: "fl_le x y \<Longrightarrow> fl_le (np_round x 1) (np_round y 1)"
  by (cases x; cases y)
    (simp_all add: np_round_PInf np_round_MInf np_round_NaN1 np_round_Fin rint_mono
       del: One_nat_def)

lemma np_round_idem: "np_round (np_round x 1) 1 = np_round x 1"
proof (cases x)
  case (Fin a)
  obtain k :: int where k: "rint (a * 10) = of_int k" using rint_is_int by blast
  show ?thesis
    by (simp add: Fin np_round_Fin k rint_of_int del: One_nat_def)
qed (simp_all add: np_round_PInf np_round_MInf np_round_NaN1 del: One_nat_def)

lemma np_round_not_MInf: "x \<noteq> MInf \<Longrightarrow> np_round x 1 \<noteq> MInf"
  by (cases x) (simp_all add: np_round_PInf np_round_NaN1 np_round_Fin del: One_nat_def)

lemma np_round_not_NaN: "x \<noteq> NaN \<Longrightarrow> np_round x 1 \<noteq> NaN"
  by (cases x) (simp_all add: np_round_PInf np_round_MInf np_round_Fin del: One_nat_def)

subsection \<open>Minimum and maximum\<close>

lemma fl_min_cases: "fl_min x y = x \<or> fl_min x y = y"
  by (simp add: fl_min_def)

lemma fl_max_cases: "fl_max x y = x \<or> fl_max x y = y"
  by (simp add: fl_max_def)

lemma fl_min_le: "x \<noteq> NaN \<Longrightarrow> y \<noteq> NaN \<Longrightarrow> fl_le (fl_min x y) x \<and> fl_le (fl_min x y) y"
  using fl_le_total [of x y] by (auto simp: fl_min_def fl_le_refl)

lemma fl_max_ge: "x \<noteq> NaN \<Longrightarrow> y \<noteq> NaN \<Longrightarrow> fl_le x (fl_max x y) \<and> fl_le y (fl_max x y)"
  using fl_le_total [of x y] by (auto simp: fl_max_def fl_le_refl)

lemma foldl_fl_min:
  assumes "y \<noteq> NaN" and "\<forall>x\<in>set ys. x \<noteq> NaN"
  shows "foldl fl_min y ys \<in> set (y # ys) \<and> (\<forall>x\<in>set (y # ys). fl_le (foldl fl_min y ys) x)"
  using assms
proof (induction ys arbitrary: y)
  case Nil
  then show ?case by (simp add: fl_le_refl)
next
  case (Cons z zs)
  have z: "z \<noteq> NaN" using Cons.prems(2) by simp
  have m: "fl_min y z \<noteq> NaN" using fl_min_cases [of y z] Cons.prems(1) z by auto
  have ih: "foldl fl_min (fl_min y z) zs \<in> set (fl_min y z # zs)"
    "\<forall>x\<in>set (fl_min y z # zs). fl_le (foldl fl_min (fl_min y z) zs) x"
    using Cons.IH [OF m] Cons.prems(2) by simp_all
  have le: "fl_le (foldl fl_min (fl_min y z) zs) (fl_min y z)"
    using ih(2) by simp
  have "fl_le (foldl fl_min (fl_min y z) zs) y" and "fl_le (foldl fl_min (fl_min y z) zs) z"
    using fl_le_trans [OF le] fl_min_le [OF Cons.prems(1) z] by simp_all
  then show ?case
    using ih fl_min_cases [of y z] by auto
qed

lemma foldl_fl_max:
  assumes "y \<noteq> NaN" and "\<forall>x\<in>set ys. x \<noteq> NaN"
  shows "foldl fl_max y ys \<in> set (y # ys) \<and> (\<forall>x\<in>set (y # ys). fl_le x (foldl fl_max y ys))"
  using assms
proof (induction ys arbitrary: y)
  case Nil
  then show ?case by (simp add: fl_le_refl)
next
  case (Cons z zs)
  have z: "z \<noteq> NaN" using Cons.prems(2) by simp
  have m: "fl_max y z \<noteq> NaN" using fl_max_cases [of y z] Cons.prems(1) z by auto
  have ih: "foldl fl_max (fl_max y z) zs \<in> set (fl_max y z # zs)"
    "\<forall>x\<in>set (fl_max y z # zs). fl_le x (foldl fl_max (fl_max y z) zs)"
    using Cons.IH [OF m] Cons.prems(2) by simp_all
  have le: "fl_le (fl_max y z) (foldl fl_max (fl_max y z) zs)"
    using ih(2) by simp
  have "fl_le y (foldl fl_max (fl_max y z) zs)" and "fl_le z (foldl fl_max (fl_max y z) zs)"
    using fl_le_trans [OF _ le] fl_max_ge [OF Cons.prems(1) z] by simp_all
  then show ?case
    using ih fl_max_cases [of y z] by auto
qed

lemma nan_drop_set: "set (nan_drop xs) = {x \<in> set xs. x \<noteq> NaN}"
  by (auto simp: nan_drop_def isnan_def)

lemma nanmin_bounds:
  assumes "nan_drop xs \<noteq> []"
  shows "nanmin xs \<in> set (nan_drop xs) \<and> (\<forall>x\<in>set (nan_drop xs). fl_le (nanmin xs) x)"
proof -
  obtain y ys where d: "nan_drop xs = y # ys"
    using assms by (cases "nan_drop xs") simp_all
  have "y \<noteq> NaN" and "\<forall>x\<in>set ys. x \<noteq> NaN"
    using nan_drop_set [of xs] d by auto
  then show ?thesis
    using foldl_fl_min [of y ys] by (simp add: nanmin_def d)
qed

lemma nanmax_bounds:
  assumes "nan_drop xs \<noteq> []"
  shows "nanmax xs \<in> set (nan_drop xs) \<and> (\<forall>x\<in>set (nan_drop xs). fl_le x (nanmax xs))"
proof -
  obtain y ys where d: "nan_drop xs = y # ys"
    using assms by (cases "nan_drop xs") simp_all
  have "y \<noteq> NaN" and "\<forall>x\<in>set ys. x \<noteq> NaN"
    using nan_drop_set [of xs] d by auto
  then show ?thesis
    using foldl_fl_max [of y ys] by (simp add: nanmax_def d)
qed

subsection \<open>The mean lies between the bounds\<close>

lemma sum_list_lower: "\<forall>r\<in>set rs. l \<le> r \<Longrightarrow> l * real (length rs) \<le> sum_list rs"
  by (induction rs) (simp_all add: algebra_simps)

lemma sum_list_upper: "\<forall>r\<in>set rs. r \<le> h \<Longrightarrow> sum_list rs \<le> h * real (length rs)"
  by (induction rs) (simp_all add: algebra_simps)

lemma all_Fin_map: "\<forall>z\<in>set zs. \<exists>r. z = Fin r \<Longrightarrow> \<exists>rs. zs = map Fin rs"
proof (induction zs)
  case Nil
  then show ?case by simp
next
  case (Cons z zs)
  then obtain r rs where "z = Fin r" and "zs = map Fin rs" by auto
  then have "z # zs = map Fin (r # rs)" by simp
  then show ?case by (rule exI [of _ "r # rs"])
qed

lemma fl_add_PInf: "z \<noteq> NaN \<Longrightarrow> z \<noteq> MInf \<Longrightarrow> fl_add PInf z = PInf"
  by (cases z) simp_all

lemma foldl_fl_add_PInf:
  assumes "\<forall>z\<in>set zs. z \<noteq> NaN \<and> z \<noteq> MInf"
  shows "foldl fl_add PInf zs = PInf"
  using assms by (induction zs) (simp_all add: fl_add_PInf)

lemma fl_add_ok: "a \<noteq> NaN \<Longrightarrow> a \<noteq> MInf \<Longrightarrow> z \<noteq> NaN \<Longrightarrow> z \<noteq> MInf
    \<Longrightarrow> fl_add a z \<noteq> NaN \<and> fl_add a z \<noteq> MInf"
  by (cases a; cases z) simp_all

lemma fl_add_PInf_right: "a \<noteq> NaN \<Longrightarrow> a \<noteq> MInf \<Longrightarrow> fl_add a PInf = PInf"
  by (cases a) simp_all

lemma foldl_fl_add_has_PInf:
  assumes "\<forall>z\<in>set zs. z \<noteq> NaN \<and> z \<noteq> MInf" and "a \<noteq> NaN" and "a \<noteq> MInf" and "PInf \<in> set zs"
  shows "foldl fl_add a zs = PInf"
  using assms
proof (induction zs arbitrary: a)
  case Nil
  then show ?case by simp
next
  case (Cons z zs)
  show ?case
  proof (cases "z = PInf")
    case True
    then show ?thesis
      using Cons.prems by (simp add: fl_add_PInf_right foldl_fl_add_PInf)
  next
    case False
    then have "PInf \<in> set zs" using Cons.prems(4) by simp
    moreover have "fl_add a z \<noteq> NaN" and "fl_add a z \<noteq> MInf"
      using fl_add_ok [of a z] Cons.prems by simp_all
    ultimately show ?thesis
      using Cons.IH [of "fl_add a z"] Cons.prems(1) by simp
  qed
qed

lemma np_mean_between:
  assumes "zs \<noteq> []"
    and "\<forall>z\<in>set zs. z \<noteq> NaN \<and> z \<noteq> MInf \<and> fl_le lo z \<and> fl_le z hi"
  shows "fl_le lo (np_mean zs) \<and> fl_le (np_mean zs) hi"
proof (cases "PInf \<in> set zs")
  case True
  have "np_sum zs = PInf"
    unfolding np_sum_def using assms(2) True by (intro foldl_fl_add_has_PInf) simp_all
  moreover have "0 < real (length zs)" using assms(1) by simp
  ultimately have m: "np_mean zs = PInf"
    by (simp add: np_mean_def fl_inf_def)
  have "fl_le lo PInf" and "fl_le PInf hi"
    using assms(2) True by auto
  then show ?thesis
    by (simp add: m)
next
  case False
  have "\<forall>z\<in>set zs. \<exists>r. z = Fin r"
  proof
    fix z assume z: "z \<in> set zs"
    then have "z \<noteq> NaN" "z \<noteq> MInf" "z \<noteq> PInf" using assms(2) False by auto
    then show "\<exists>r. z = Fin r" by (cases z) simp_all
  qed
  then obtain rs where rs: "zs = map Fin rs" using all_Fin_map by blast
  have ne: "rs \<noteq> []" using assms(1) rs by simp
  have m: "np_mean zs = Fin (sum_list rs / real (length rs))"
    using ne by (simp add: rs np_mean_Fin)
  have n: "0 < real (length rs)" using ne by simp
  have bnd: "\<forall>r\<in>set rs. fl_le lo (Fin r) \<and> fl_le (Fin r) hi"
    using assms(2) rs by simp
  obtain r0 where r0: "r0 \<in> set rs" using ne by (cases rs) auto
  have "fl_le lo (Fin (sum_list rs / real (length rs)))"
  proof (cases lo)
    case (Fin l)
    then have "\<forall>r\<in>set rs. l \<le> r" using bnd by simp
    then have "l * real (length rs) \<le> sum_list rs" by (rule sum_list_lower)
    then have "l \<le> sum_list rs / real (length rs)"
      using n by (simp add: pos_le_divide_eq)
    then show ?thesis by (simp add: Fin)
  qed (use bnd r0 in auto)
  moreover have "fl_le (Fin (sum_list rs / real (length rs))) hi"
  proof (cases hi)
    case (Fin h)
    then have "\<forall>r\<in>set rs. r \<le> h" using bnd by simp
    then have "sum_list rs \<le> h * real (length rs)" by (rule sum_list_upper)
    then have "sum_list rs / real (length rs) \<le> h"
      using n by (simp add: pos_divide_le_eq)
    then show ?thesis by (simp add: Fin)
  qed (use bnd r0 in auto)
  ultimately show ?thesis
    by (simp add: m)
qed

subsection \<open>Sorting and the median\<close>

lemma fl_insort_set: "set (fl_insort x xs) = insert x (set xs)"
  by (induction xs) auto

lemma fl_insort_length: "length (fl_insort x xs) = Suc (length xs)"
  by (induction xs) simp_all

lemma np_sort_set: "set (np_sort xs) = set xs"
  by (induction xs) (simp_all add: np_sort_def fl_insort_set)

lemma np_sort_length: "length (np_sort xs) = length xs"
  by (induction xs) (simp_all add: np_sort_def fl_insort_length)

lemma np_median_between:
  assumes "ys \<noteq> []"
    and "\<forall>z\<in>set ys. z \<noteq> NaN \<and> z \<noteq> MInf \<and> fl_le lo z \<and> fl_le z hi"
  shows "fl_le lo (np_median ys) \<and> fl_le (np_median ys) hi"
proof -
  let ?part = "np_sort ys"
  let ?index = "length ?part div 2"
  have len: "0 < length ?part" using assms(1) by (simp add: np_sort_length)
  have slice: "fl_le lo (np_mean (take k (drop j ?part))) \<and> fl_le (np_mean (take k (drop j ?part))) hi"
    if "0 < k" and "j < length ?part" for k j
  proof (rule np_mean_between)
    show "take k (drop j ?part) \<noteq> []" using that by simp
    have "set (take k (drop j ?part)) \<subseteq> set ys"
      using set_take_subset [of k "drop j ?part"] set_drop_subset [of j ?part]
      by (auto simp: np_sort_set)
    then show "\<forall>z\<in>set (take k (drop j ?part)). z \<noteq> NaN \<and> z \<noteq> MInf \<and> fl_le lo z \<and> fl_le z hi"
      using assms(2) by blast
  qed
  have "?index < length ?part" using len by simp
  moreover have "?index - 1 < length ?part" using len by (simp add: less_imp_diff_less)
  ultimately show ?thesis
    using slice [of 1 ?index] slice [of 2 "?index - 1"]
    by (simp add: np_median_def Let_def del: One_nat_def)
qed

subsection \<open>Ordering of the yearly statistics\<close>

lemma icrate_at_ordered:
  assumes "\<forall>x\<in>set rates. np_round x 1 = x \<and> x \<noteq> MInf" and "nan_drop rates \<noteq> []"
  shows "fl_le (min1 (icrate_at y rates)) (mean1 (icrate_at y rates))
       \<and> fl_le (mean1 (icrate_at y rates)) (max1 (icrate_at y rates))
       \<and> fl_le (min1 (icrate_at y rates)) (median1 (icrate_at y rates))
       \<and> fl_le (median1 (icrate_at y rates)) (max1 (icrate_at y rates))"
proof -
  let ?ds = "nan_drop rates"
  let ?lo = "nanmin rates" and ?hi = "nanmax rates"
  have lo: "?lo \<in> set ?ds" "\<forall>x\<in>set ?ds. fl_le ?lo x"
    using nanmin_bounds [OF assms(2)] by simp_all
  have hi: "?hi \<in> set ?ds" "\<forall>x\<in>set ?ds. fl_le x ?hi"
    using nanmax_bounds [OF assms(2)] by simp_all
  have sub: "set ?ds \<subseteq> set rates" by (auto simp: nan_drop_set)
  have fix_lo: "np_round ?lo 1 = ?lo" and fix_hi: "np_round ?hi 1 = ?hi"
    using assms(1) lo(1) hi(1) sub by blast+
  have elems: "\<forall>z\<in>set ?ds. z \<noteq> NaN \<and> z \<noteq> MInf \<and> fl_le ?lo z \<and> fl_le z ?hi"
    using assms(1) lo(2) hi(2) by (auto simp: nan_drop_set)
  have mean: "fl_le ?lo (nanmean rates) \<and> fl_le (nanmean rates) ?hi"
    unfolding nanmean_def using assms(2) elems by (rule np_mean_between)
  obtain d ds where d: "?ds = d # ds"
    using assms(2) by (cases ?ds) simp_all
  have "fl_le ?lo (np_median ?ds) \<and> fl_le (np_median ?ds) ?hi"
    using assms(2) elems by (rule np_median_between)
  then have median: "fl_le ?lo (nanmedian rates) \<and> fl_le (nanmedian rates) ?hi"
    by (simp add: nanmedian_def d)
  have "fl_le (np_round ?lo 1) (np_round (nanmean rates) 1)"
    and "fl_le (np_round (nanmean rates) 1) (np_round ?hi 1)"
    and "fl_le (np_round ?lo 1) (np_round (nanmedian rates) 1)"
    and "fl_le (np_round (nanmedian rates) 1) (np_round ?hi 1)"
    using mean median by (simp_all only: np_round_mono)
  then show ?thesis
    by (simp only: fix_lo fix_hi icrate_at_def icrate_row.simps)
qed

lemma rate_entry_full_not_MInf: "rate_entry_full c d \<noteq> MInf"
  by (cases d) (simp_all add: rate_entry_full_def fl_inf_def)

lemma rate_entry_fixed: "np_round (rate_entry c d) 1 = rate_entry c d \<and> rate_entry c d \<noteq> MInf"
  using np_round_idem [of "rate_entry_full c d"] np_round_not_MInf [OF rate_entry_full_not_MInf [of c d]]
  by (simp only: rate_entry_round) simp

lemma hist_nth_fixed:
  assumes "length hist1 = length days" and "i < length days"
  shows "np_round (hist sc hist1 days ! i) 1 = hist sc hist1 days ! i \<and> hist sc hist1 days ! i \<noteq> MInf"
proof -
  consider "sc = STA \<and> i = length days - 1" | "sc = MAV \<and> i = 7"
    | "\<not> (sc = STA \<and> i = length days - 1) \<and> \<not> (sc = MAV \<and> i = 7)"
    by blast
  then show ?thesis
  proof cases
    case 1
    then have "hist sc hist1 days ! i = Fin 13"
      using assms by (simp add: hist_def Let_def)
    then show ?thesis by (simp only: np_round_13) simp
  next
    case 2
    then have "hist sc hist1 days ! i = NaN"
      using assms by (simp add: hist_def Let_def)
    then show ?thesis by (simp only: np_round_NaN1) simp
  next
    case 3
    then have "hist sc hist1 days ! i = rate_entry (hist1 ! i) (days ! i)"
      using assms by (intro hist_nth_plain) simp_all
    then show ?thesis by (simp only: rate_entry_fixed) simp
  qed
qed

text \<open>
  C4.  For every year in which at least one spacecraft has a defined rate, the stored
  statistics satisfy \<open>min \<le> mean \<le> max\<close> and \<open>min \<le> median \<le> max\<close>, with the mean and
  the median rounded to one decimal place: the rates are themselves rounded to one
  decimal place (or infinite, for a count divided by zero days), so the rounding of the
  mean and the median does not leave the interval.
\<close>

theorem icrate_min_mean_max:
  assumes "i < n_years"
    and "\<forall>sc. length (hist1 sc) = n_years \<and> length (days sc) = n_years"
    and "\<exists>sc. \<not> isnan (hist sc (hist1 sc) (days sc) ! i)"
    and "row = icrate_hist yrs hist1 days ! i"
  shows "fl_le (min1 row) (mean1 row) \<and> fl_le (mean1 row) (max1 row)
       \<and> fl_le (min1 row) (median1 row) \<and> fl_le (median1 row) (max1 row)"
proof -
  let ?h = "\<lambda>sc. hist sc (hist1 sc) (days sc)"
  let ?rates = "[?h WIN ! i, ?h VEX ! i, ?h STA ! i, ?h STB ! i, ?h MES ! i, ?h MAV ! i]"
  have row: "row = icrate_at (yrs ! i) ?rates"
    using assms(1,4) by (simp add: icrate_hist_def icrate_def)
  have fixed: "np_round (?h sc ! i) 1 = ?h sc ! i \<and> ?h sc ! i \<noteq> MInf" for sc
    using assms(1,2) by (intro hist_nth_fixed) simp_all
  then have all: "\<forall>x\<in>set ?rates. np_round x 1 = x \<and> x \<noteq> MInf"
    by simp
  obtain sc where sc: "?h sc ! i \<noteq> NaN"
    using assms(3) by (auto simp: isnan_def)
  have "?h sc ! i \<in> set ?rates"
    by (cases sc) simp_all
  then have "?h sc ! i \<in> set (nan_drop ?rates)"
    using sc by (simp only: nan_drop_set) simp
  then have ne: "nan_drop ?rates \<noteq> []"
    by auto
  show ?thesis
    unfolding row using all ne by (rule icrate_at_ordered)
qed

text \<open>
  Wind with 10 events in 300 days and Venus Express with 10 events in 200 days: the
  rates are 12.2 and 18.3, mean and median 15.25 are stored as 15.2.
\<close>

theorem icrate_min_mean_max_witness:
  "0 < n_years
   \<and> (\<forall>sc. length ((\<lambda>sc. replicate 13 (10::nat)) sc) = n_years
          \<and> length ((\<lambda>sc. if sc = WIN then replicate 13 (Fin 300)
                          else if sc = VEX then replicate 13 (Fin 200) else replicate 13 NaN) sc) = n_years)
   \<and> \<not> isnan (hist WIN (replicate 13 10) (replicate 13 (Fin 300)) ! 0)
   \<and> min1 (icrate_hist (replicate 13 2007.5) (\<lambda>sc. replicate 13 10)
        (\<lambda>sc. if sc = WIN then replicate 13 (Fin 300)
              else if sc = VEX then replicate 13 (Fin 200) else replicate 13 NaN) ! 0) = Fin 12.2
   \<and> mean1 (icrate_hist (replicate 13 2007.5) (\<lambda>sc. replicate 13 10)
        (\<lambda>sc. if sc = WIN then replicate 13 (Fin 300)
              else if sc = VEX then replicate 13 (Fin 200) else replicate 13 NaN) ! 0) = Fin 15.2
   \<and> median1 (icrate_hist (replicate 13 2007.5) (\<lambda>sc. replicate 13 10)
        (\<lambda>sc. if sc = WIN then replicate 13 (Fin 300)
              else if sc = VEX then replicate 13 (Fin 200) else replicate 13 NaN) ! 0) = Fin 15.2
   \<and> max1 (icrate_hist (replicate 13 2007.5) (\<lambda>sc. replicate 13 10)
        (\<lambda>sc. if sc = WIN then replicate 13 (Fin 300)
              else if sc = VEX then replicate 13 (Fin 200) else replicate 13 NaN) ! 0) = Fin 18.3
   \<and> fl_le (Fin 12.2) (Fin 15.2) \<and> fl_le (Fin 15.2) (Fin 18.3)"
proof -
  let ?hist1 = "\<lambda>sc::spacecraft. replicate 13 (10::nat)"
  let ?days = "\<lambda>sc. if sc = WIN then replicate 13 (Fin 300)
                     else if sc = VEX then replicate 13 (Fin 200) else replicate 13 NaN"
  let ?row = "icrate_hist (replicate 13 2007.5) ?hist1 ?days ! 0"
  have h1: "0 < n_years" by (simp add: n_years_eq)
  have h2: "\<forall>sc. length (?hist1 sc) = n_years \<and> length (?days sc) = n_years"
    by (simp add: n_years_eq)
  have win: "hist WIN (replicate 13 10) (replicate 13 (Fin 300)) ! 0 = Fin 12.2"
    by (simp add: hist_def Let_def rate_entry_def np_round_def rint_def)
  have h3: "\<exists>sc. \<not> isnan (hist sc (?hist1 sc) (?days sc) ! 0)"
    by (rule exI [of _ WIN]) (simp add: win isnan_def)
  have vals: "min1 ?row = Fin 12.2" "mean1 ?row = Fin 15.2" "median1 ?row = Fin 15.2"
    "max1 ?row = Fin 18.3"
    by (simp_all add: icrate_hist_def icrate_def icrate_at_def n_years_eq hist_def Let_def
        rate_entry_def np_round_def rint_def nanmin_def nanmax_def nanmean_def nanmedian_def
        nan_drop_def isnan_def fl_min_def fl_max_def np_mean_def np_sum_def np_median_def
        np_sort_def)
  show ?thesis
    using icrate_min_mean_max [OF h1 h2 h3 refl] h1 h2 win vals
    by (simp add: isnan_def)
qed

subsection \<open>Combination of the three error sources\<close>

text \<open>
  The value of \<open>dbl\<close> at a number whose binary exponent is known, and the doubles that
  occur when the errors 0.15, 1.2 and 0.6 are combined in two orders.
\<close>

lemma pow2_powr: "pow2 e = 2 powr (of_int e)"
  by (simp add: pow2_def powr_real_of_int inverse_eq_divide)

lemma dbl_at:
  assumes "pow2 e \<le> \<bar>x\<bar>" and "\<bar>x\<bar> < pow2 (e + 1)"
  shows "dbl x = rint (x / pow2 (e - 52)) * pow2 (e - 52)"
proof -
  have pos: "0 < \<bar>x\<bar>"
    using assms(1) by (smt (verit) pow2_powr powr_gt_zero)
  have "of_int e \<le> log 2 \<bar>x\<bar>"
    using assms(1) pos by (simp add: le_log_iff pow2_powr)
  moreover have "log 2 \<bar>x\<bar> < of_int e + 1"
    using assms(2) pos by (simp add: log_less_iff pow2_powr)
  ultimately have "\<lfloor>log 2 \<bar>x\<bar>\<rfloor> = e"
    by (intro floor_unique) simp_all
  then show ?thesis
    using pos by (simp add: dbl_def Let_def)
qed

lemma rint_unique:
  assumes "of_int m - 1 / 2 < y" and "y < of_int m + 1 / 2"
  shows "rint y = of_int m"
proof -
  have "\<lfloor>y\<rfloor> = m \<or> \<lfloor>y\<rfloor> = m - 1"
    using assms by linarith
  then show ?thesis
  proof
    assume f: "\<lfloor>y\<rfloor> = m"
    then have "y - of_int \<lfloor>y\<rfloor> < 1 / 2" using assms by simp
    then show ?thesis by (simp add: rint_def Let_def f)
  next
    assume f: "\<lfloor>y\<rfloor> = m - 1"
    then have "1 / 2 < y - of_int \<lfloor>y\<rfloor>" using assms by simp
    then show ?thesis by (simp add: rint_def Let_def f)
  qed
qed


lemma dbl_015: "dbl (0.15) = 5404319552844595 / 2 ^ 55"
  using dbl_at [of "-3" "0.15"] by (simp add: rint_def pow2_def)

lemma dbl_12: "dbl (1.2) = 5404319552844595 / 2 ^ 52"
  using dbl_at [of "0" "1.2"] by (simp add: rint_def pow2_def)

lemma dbl_06: "dbl (0.6) = 5404319552844595 / 2 ^ 53"
  using dbl_at [of "-1" "0.6"] by (simp add: rint_def pow2_def)

lemma dbl_13: "dbl (1.3) = 5854679515581645 / 2 ^ 52"
  using dbl_at [of "0" "1.3"] by (simp add: rint_def pow2_def)

lemma dbl_14: "dbl (1.4) = 3152519739159347 / 2 ^ 51"
  using dbl_at [of "0" "1.4"] by (simp add: rint_def pow2_def)

lemma sq_015: "dbl (5404319552844595 / 2 ^ 55 * (5404319552844595 / 2 ^ 55)) = 3242591731706757 / 2 ^ 57"
  using dbl_at [of "-6" "5404319552844595 / 2 ^ 55 * (5404319552844595 / 2 ^ 55)"] by (simp add: rint_def pow2_def)

lemma sq_12: "dbl (5404319552844595 / 2 ^ 52 * (5404319552844595 / 2 ^ 52)) = 3242591731706757 / 2 ^ 51"
  using dbl_at [of "0" "5404319552844595 / 2 ^ 52 * (5404319552844595 / 2 ^ 52)"] by (simp add: rint_def pow2_def)

lemma sq_06: "dbl (5404319552844595 / 2 ^ 53 * (5404319552844595 / 2 ^ 53)) = 3242591731706757 / 2 ^ 53"
  using dbl_at [of "-2" "5404319552844595 / 2 ^ 53 * (5404319552844595 / 2 ^ 53)"] by (simp add: rint_def pow2_def)

lemma sum_015_12: "dbl (3242591731706757 / 2 ^ 57 + 3242591731706757 / 2 ^ 51) = 3293257227514675 / 2 ^ 51"
  using dbl_at [of "0" "3242591731706757 / 2 ^ 57 + 3242591731706757 / 2 ^ 51"] by (simp add: rint_def pow2_def)

lemma sum_015_12_06: "dbl (3293257227514675 / 2 ^ 51 + 3242591731706757 / 2 ^ 53) = 1025976290110341 / 2 ^ 49"
  using dbl_at [of "0" "3293257227514675 / 2 ^ 51 + 3242591731706757 / 2 ^ 53"] by (simp add: rint_def pow2_def)

lemma sum_015_06: "dbl (3242591731706757 / 2 ^ 57 + 3242591731706757 / 2 ^ 53) = 6890507429876859 / 2 ^ 54"
  using dbl_at [of "-2" "3242591731706757 / 2 ^ 57 + 3242591731706757 / 2 ^ 53"] by (simp add: rint_def pow2_def)

lemma sum_015_06_12: "dbl (6890507429876859 / 2 ^ 54 + 3242591731706757 / 2 ^ 51) = 8207810320882729 / 2 ^ 52"
  using dbl_at [of "0" "6890507429876859 / 2 ^ 54 + 3242591731706757 / 2 ^ 51"] by (simp add: rint_def pow2_def)

lemma times10_low: "dbl (6079859496950169 / 2 ^ 52 * 10) = 7599824371187711 / 2 ^ 49"
  using dbl_at [of "3" "6079859496950169 / 2 ^ 52 * 10"] by (simp add: rint_def pow2_def)

lemma times10_tie: "dbl (3039929748475085 / 2 ^ 51 * 10) = 27 / 2 ^ 1"
  using dbl_at [of "3" "3039929748475085 / 2 ^ 51 * 10"] by (simp add: rint_def pow2_def)

lemma sqrt_low: "dbl (sqrt (1025976290110341 / 2 ^ 49)) = 6079859496950169 / 2 ^ 52"
proof -
  define r where "r = sqrt (1025976290110341 / 2 ^ 49)"
  have lo: "(6079859496950169 - 1 / 2) / 2 ^ 52 < r"
    unfolding r_def by (rule real_less_rsqrt) (simp add: power2_eq_square)
  have hi: "r < (6079859496950169 + 1 / 2) / 2 ^ 52"
    unfolding r_def by (rule real_less_lsqrt) (simp_all add: power2_eq_square)
  have "of_int 6079859496950169 - 1 / 2 < r * 2 ^ 52" and "r * 2 ^ 52 < of_int 6079859496950169 + 1 / 2"
    using lo hi by (simp_all add: field_simps)
  then have "rint (r * 2 ^ 52) = of_int 6079859496950169"
    by (rule rint_unique)
  moreover have "pow2 0 \<le> \<bar>r\<bar>" and "\<bar>r\<bar> < pow2 (0 + 1)"
    using lo hi by (simp_all add: pow2_def)
  then have "dbl r = rint (r / pow2 (0 - 52)) * pow2 (0 - 52)"
    by (rule dbl_at)
  ultimately have "dbl r = 6079859496950169 / 2 ^ 52"
    by (simp add: pow2_def)
  then show ?thesis
    by (simp only: r_def)
qed

lemma sqrt_tie: "dbl (sqrt (8207810320882729 / 2 ^ 52)) = 3039929748475085 / 2 ^ 51"
proof -
  define r where "r = sqrt (8207810320882729 / 2 ^ 52)"
  have lo: "(6079859496950170 - 1 / 2) / 2 ^ 52 < r"
    unfolding r_def by (rule real_less_rsqrt) (simp add: power2_eq_square)
  have hi: "r < (6079859496950170 + 1 / 2) / 2 ^ 52"
    unfolding r_def by (rule real_less_lsqrt) (simp_all add: power2_eq_square)
  have "of_int 6079859496950170 - 1 / 2 < r * 2 ^ 52" and "r * 2 ^ 52 < of_int 6079859496950170 + 1 / 2"
    using lo hi by (simp_all add: field_simps)
  then have "rint (r * 2 ^ 52) = of_int 6079859496950170"
    by (rule rint_unique)
  moreover have "pow2 0 \<le> \<bar>r\<bar>" and "\<bar>r\<bar> < pow2 (0 + 1)"
    using lo hi by (simp_all add: pow2_def)
  then have "dbl r = rint (r / pow2 (0 - 52)) * pow2 (0 - 52)"
    by (rule dbl_at)
  ultimately have "dbl r = 3039929748475085 / 2 ^ 51"
    by (simp add: pow2_def)
  then show ?thesis
    by (simp only: r_def)
qed


lemma rint_low: "rint (7599824371187711 / 2 ^ 49) = 13"
  by (simp add: rint_def)

lemma rint_tie: "rint (27 / 2 ^ 1) = 14"
  by (simp add: rint_def)

lemma pow2_pos: "0 < pow2 e"
  by (simp add: pow2_def)

lemma rint_zero: "rint 0 = 0"
  by (simp add: rint_def)

lemma dbl_nonneg: "0 \<le> x \<Longrightarrow> 0 \<le> dbl x"
proof -
  assume x: "0 \<le> x"
  have "0 \<le> rint (x / pow2 e)" for e
    using rint_mono [of 0 "x / pow2 e"] x pow2_pos [of e] by (simp add: rint_zero)
  then show ?thesis
    using pow2_pos by (simp add: dbl_def Let_def less_imp_le)
qed

lemma fl_add_commute: "fl_add x y = fl_add y x"
  by (cases x; cases y) simp_all

lemma d_add_commute: "d_add x y = d_add y x"
  by (simp add: d_add_def fl_add_commute)

lemma ic_rate_25_std_entry_Fin:
  "ic_rate_25_std_entry (Fin a) (Fin b) (Fin c) =
     Fin (dbl (rint (dbl (dbl (sqrt (dbl (dbl (dbl (a * a) + dbl (b * b)) + dbl (c * c)))) * 10)) / 10))"
proof -
  have "0 \<le> dbl (dbl (dbl (a * a) + dbl (b * b)) + dbl (c * c))"
    by (intro dbl_nonneg add_nonneg_nonneg) simp_all
  then show ?thesis
    by (simp add: ic_rate_25_std_entry_def np_round_d_def d_sqrt_def d_add_def d_mul_def d_div_def
        not_less [symmetric])
qed

lemma ic_rate_25_std_entry_swap12:
  "ic_rate_25_std_entry e1 e2 e3 = ic_rate_25_std_entry e2 e1 e3"
  by (simp add: ic_rate_25_std_entry_def d_add_commute)

lemma ic_rate25_std_ssnpred_Fin:
  "ic_rate25_std_ssnpred (Fin m) (Fin l) (Fin h) =
     Fin (dbl (rint (dbl (dbl (dbl (dbl (h - m) + \<bar>dbl (l - m)\<bar>) / 2) * 100)) / 100))"
  by (simp add: ic_rate25_std_ssnpred_def np_round_d_def d_add_def d_sub_def d_mul_def d_div_def
      fl_sub_def)

lemma ic_rate25_std_ssnfit_Fin:
  "ic_rate25_std_ssnfit (Fin m) (Fin l) = Fin (dbl (rint (dbl (dbl (m - l) * 10)) / 10))"
  by (simp add: ic_rate25_std_ssnfit_def np_round_d_def d_sub_def d_mul_def d_div_def fl_sub_def)

text \<open>
  C6 (as the code has it).  The total uncertainty of a year is
  \<open>sqrt(e1\<^sup>2 + e2\<^sup>2 + e3\<^sup>2)\<close> evaluated in double precision, the squares added from left
  to right, and rounded to one decimal place.  It does not change when \<open>e1\<close> and \<open>e2\<close>
  are exchanged.  Both scenarios, PP19 and MC20, combine their yearly arrays in this
  way; \<open>e1\<close> is half the width of the band from the sunspot prediction, rounded to two
  decimals, \<open>e2\<close> the distance from the fitted rate to its lower bound, rounded to one
  decimal, and \<open>e3\<close> the observed spread, which ends with the assumed value 2.0 for the
  three years beyond the catalogue.
\<close>

theorem ic_rate_25_std_entry_quadrature:
  "ic_rate_25_std_entry (Fin a) (Fin b) (Fin c) =
     Fin (dbl (rint (dbl (dbl (sqrt (dbl (dbl (dbl (a * a) + dbl (b * b)) + dbl (c * c)))) * 10)) / 10))
   \<and> ic_rate_25_std_entry e1 e2 e3 = ic_rate_25_std_entry e2 e1 e3
   \<and> ic_rate_25_pp_std e1s e2s e3s =
       map (\<lambda>(e1, e2, e3). ic_rate_25_std_entry e1 e2 e3) (zip e1s (zip e2s e3s))
   \<and> ic_rate_25_mc20_std e1s e2s e3s = ic_rate_25_pp_std e1s e2s e3s
   \<and> ic_rate25_std_ssnpred (Fin m) (Fin l) (Fin h) =
       Fin (dbl (rint (dbl (dbl (dbl (dbl (h - m) + \<bar>dbl (l - m)\<bar>) / 2) * 100)) / 100))
   \<and> ic_rate25_std_ssnfit (Fin m) (Fin l) = Fin (dbl (rint (dbl (dbl (m - l) * 10)) / 10))
   \<and> drop (length (ic_rate25_std rows) - 3) (ic_rate25_std rows) = [Fin 2, Fin 2, Fin 2]"
proof (intro conjI)
  show "ic_rate_25_std_entry (Fin a) (Fin b) (Fin c) =
     Fin (dbl (rint (dbl (dbl (sqrt (dbl (dbl (dbl (a * a) + dbl (b * b)) + dbl (c * c)))) * 10)) / 10))"
    by (rule ic_rate_25_std_entry_Fin)
  show "ic_rate_25_std_entry e1 e2 e3 = ic_rate_25_std_entry e2 e1 e3"
    by (rule ic_rate_25_std_entry_swap12)
  show "ic_rate_25_pp_std e1s e2s e3s =
       map (\<lambda>(e1, e2, e3). ic_rate_25_std_entry e1 e2 e3) (zip e1s (zip e2s e3s))"
    by (simp only: ic_rate_25_pp_std_def)
  show "ic_rate_25_mc20_std e1s e2s e3s = ic_rate_25_pp_std e1s e2s e3s"
    by (simp only: ic_rate_25_pp_std_def ic_rate_25_mc20_std_def)
  show "ic_rate25_std_ssnpred (Fin m) (Fin l) (Fin h) =
       Fin (dbl (rint (dbl (dbl (dbl (dbl (h - m) + \<bar>dbl (l - m)\<bar>) / 2) * 100)) / 100))"
    by (rule ic_rate25_std_ssnpred_Fin)
  show "ic_rate25_std_ssnfit (Fin m) (Fin l) = Fin (dbl (rint (dbl (dbl (m - l) * 10)) / 10))"
    by (rule ic_rate25_std_ssnfit_Fin)
  show "drop (length (ic_rate25_std rows) - 3) (ic_rate25_std rows) = [Fin 2, Fin 2, Fin 2]"
    by (simp add: ic_rate25_std_def)
qed

text \<open>
  The total is not the same for every order of the three sources: 0.15, 1.2 and 0.6
  (values that \<open>np.round\<close> stores with two decimals and with one) give 1.3, and 0.15, 0.6
  and 1.2 give 1.4.  The exact root is 1.35; the sum of the squares is one unit in the
  last place smaller in the first order, so the root times ten is below 13.5 there and
  exactly 13.5 in the second order.
\<close>

theorem ic_rate_25_std_permutation_counterexample:
  "ic_rate_25_std_entry (Fin (dbl 0.15)) (Fin (dbl 1.2)) (Fin (dbl 0.6)) = Fin (dbl 1.3)
   \<and> ic_rate_25_std_entry (Fin (dbl 0.15)) (Fin (dbl 0.6)) (Fin (dbl 1.2)) = Fin (dbl 1.4)
   \<and> dbl 1.3 \<noteq> dbl 1.4"
proof (intro conjI)
  show "ic_rate_25_std_entry (Fin (dbl 0.15)) (Fin (dbl 1.2)) (Fin (dbl 0.6)) = Fin (dbl 1.3)"
    by (simp only: ic_rate_25_std_entry_Fin dbl_015 dbl_12 dbl_06 sq_015 sq_12 sq_06
        sum_015_12 sum_015_12_06 sqrt_low times10_low rint_low)
  show "ic_rate_25_std_entry (Fin (dbl 0.15)) (Fin (dbl 0.6)) (Fin (dbl 1.2)) = Fin (dbl 1.4)"
    by (simp only: ic_rate_25_std_entry_Fin dbl_015 dbl_12 dbl_06 sq_015 sq_12 sq_06
        sum_015_06 sum_015_06_12 sqrt_tie times10_tie rint_tie)
  show "dbl 1.3 \<noteq> dbl 1.4"
    unfolding dbl_13 dbl_14 by simp
qed

end
